theory Spec2Isabelle
  imports Main
begin

section \<open>JavaScript values\<close>

text \<open>
  The module \<^verbatim>\<open>src/dev/xdl/src/Exp.js\<close> works on parsed JSON: the two manifests
  \<^verbatim>\<open>package.json\<close> and \<^verbatim>\<open>exp.json\<close>, the recent-projects list and the settings stores.
  A finite number is the double \<open>m * 2 ^ e\<close>; the manifest \<^verbatim>\<open>exp.json\<close> is read as JSON5,
  which also has \<^verbatim>\<open>NaN\<close> and the infinities.
\<close>

datatype jsnum = NaN | Infinity bool | Finite int int

datatype jsval =
    JUndefined
  | JNull
  | JBool bool
  | JNum jsnum
  | JStr string
  | JArr "jsval list"
  | JObj "(string \<times> jsval) list"

datatype ErrorCode = INVALID_OPTIONS | DIRECTORY_ALREADY_EXISTS

datatype NotificationCode = PROGRESS

text \<open>
  What the module throws: \<^verbatim>\<open>new Error(msg)\<close>, \<^verbatim>\<open>new XDLError(code, msg)\<close>, and the
  \<^verbatim>\<open>TypeError\<close> of the language itself. A collaborator's failure is a value of the same type.
\<close>

datatype exn = Error string | TypeError string | XDLError ErrorCode string

text \<open>JavaScript's \<^verbatim>\<open>ToBoolean\<close>, which decides \<^verbatim>\<open>!v\<close>, \<^verbatim>\<open>a && b\<close> and \<^verbatim>\<open>a || b\<close>.\<close>

fun truthy :: "jsval \<Rightarrow> bool" where
  "truthy JUndefined = False"
| "truthy JNull = False"
| "truthy (JBool b) = b"
| "truthy (JNum NaN) = False"
| "truthy (JNum (Infinity s)) = True"
| "truthy (JNum (Finite m e)) = (m \<noteq> 0)"
| "truthy (JStr s) = (s \<noteq> [])"
| "truthy (JArr vs) = True"
| "truthy (JObj kvs) = True"

text \<open>\<^verbatim>\<open>a || b\<close> on values (both operands here are already evaluated and cannot throw).\<close>

definition js_or :: "jsval \<Rightarrow> jsval \<Rightarrow> jsval" where
  "js_or a b = (if truthy a then a else b)"

text \<open>
  Property read \<^verbatim>\<open>v.k\<close>. On \<^verbatim>\<open>undefined\<close> and \<^verbatim>\<open>null\<close> it throws a \<^verbatim>\<open>TypeError\<close>; on an
  object it is the own property or \<^verbatim>\<open>undefined\<close>; on any other value it is \<^verbatim>\<open>undefined\<close>
  for the keys this module reads (\<^verbatim>\<open>exp\<close>, \<^verbatim>\<open>main\<close>, \<^verbatim>\<open>entryPoint\<close>, \<^verbatim>\<open>sdkVersion\<close>, \<^verbatim>\<open>slug\<close>,
  \<^verbatim>\<open>name\<close>, \<^verbatim>\<open>version\<close>, \<^verbatim>\<open>urlRandomness\<close>, \<^verbatim>\<open>starterApps\<close>, \<^verbatim>\<open>default\<close>), none of which is
  a built-in property of a string, a number, a boolean or an array.
\<close>

fun getProp :: "jsval \<Rightarrow> string \<Rightarrow> exn + jsval" where
  "getProp JUndefined k = Inl (TypeError k)"
| "getProp JNull k = Inl (TypeError k)"
| "getProp (JObj kvs) k = Inr (case map_of kvs k of Some v \<Rightarrow> v | None \<Rightarrow> JUndefined)"
| "getProp v k = Inr JUndefined"

text \<open>Sequencing of steps that may throw.\<close>

definition bindE :: "exn + 'a \<Rightarrow> ('a \<Rightarrow> exn + 'b) \<Rightarrow> exn + 'b" where
  "bindE m f = (case m of Inl e \<Rightarrow> Inl e | Inr a \<Rightarrow> f a)"

section \<open>The world outside the module\<close>

text \<open>
  A \<^verbatim>\<open>JsonFile\<close> object of \<^verbatim>\<open>@exponent/json-file\<close>: a path and the \<^verbatim>\<open>json5\<close> option.
  Reading one has three outcomes: the file cannot be read, its text does not parse, or
  it parses to a value.
\<close>

record JsonFile =
  filePath :: string
  json5 :: bool

datatype file_read = CantReadFile exn | BadJson exn | Parsed jsval

text \<open>
  Every mutating call the module makes on a collaborator is recorded, in order, so that
  "no write happened" and "exactly one download happened" can be stated.
\<close>

datatype call =
    Mkdirp string
  | Download string string
  | SpawnAsync string "string list"
  | TargzExtract string string
  | JsonWrite string jsval
  | WriteFile string string
  | Notify NotificationCode string
  | UserSettingsSet string jsval
  | ProjectSettingsSet string jsval
  | SomeRandomness
  | RandomIdentifier

record 'x world =
  ext :: 'x
  calls :: "call list"

text \<open>
  The collaborators (\<^verbatim>\<open>path\<close>, \<^verbatim>\<open>fs\<close>, \<^verbatim>\<open>mkdirp\<close>, \<^verbatim>\<open>download\<close>, \<^verbatim>\<open>tar.gz\<close>, \<^verbatim>\<open>joi\<close>,
  \<^verbatim>\<open>@exponent/json-file\<close>, \<^verbatim>\<open>@exponent/spawn-async\<close>, \<^verbatim>\<open>exists-async\<close> and the sibling modules
  \<^verbatim>\<open>Api\<close>, \<^verbatim>\<open>User\<close>, \<^verbatim>\<open>UrlUtils\<close>, \<^verbatim>\<open>UserSettings\<close>, \<^verbatim>\<open>ProjectSettings\<close>, \<^verbatim>\<open>Logger\<close>) are not part of
  \<^verbatim>\<open>Exp.js\<close>. They are parameters, over an external state \<open>'x\<close> (disk, network, settings
  stores, random source). A read is a function of that state; a mutating call returns
  its outcome and the new state, also when it fails. \<open>mkdirp\<close> stands for both
  \<^verbatim>\<open>mkdirp.sync\<close> and \<^verbatim>\<open>mkdirp.promise\<close>. Three built-ins of the language are parameters
  as well: \<^verbatim>\<open>Object.assign\<close>, \<^verbatim>\<open>String.prototype.replace\<close> (pattern, global flag,
  replacement, subject) and the \<^verbatim>\<open>ToString\<close> of a value that is not a string.
\<close>

record 'x env =
  path_join :: "string \<Rightarrow> string \<Rightarrow> string"
  path_resolve :: "string \<Rightarrow> string"
  jsonRead :: "'x \<Rightarrow> JsonFile \<Rightarrow> file_read"
  jsonWrite :: "JsonFile \<Rightarrow> jsval \<Rightarrow> 'x \<Rightarrow> (exn + jsval) \<times> 'x"
  statSync :: "'x \<Rightarrow> string \<Rightarrow> bool"
  existsAsync :: "'x \<Rightarrow> string \<Rightarrow> bool"
  readFile :: "'x \<Rightarrow> string \<Rightarrow> exn + string"
  writeFile :: "string \<Rightarrow> string \<Rightarrow> 'x \<Rightarrow> (exn + unit) \<times> 'x"
  mkdirp :: "string \<Rightarrow> 'x \<Rightarrow> (exn + unit) \<times> 'x"
  download :: "string \<Rightarrow> string \<Rightarrow> 'x \<Rightarrow> (exn + unit) \<times> 'x"
  spawnAsync :: "string \<Rightarrow> string list \<Rightarrow> 'x \<Rightarrow> (exn + unit) \<times> 'x"
  targzExtract :: "string \<Rightarrow> string \<Rightarrow> 'x \<Rightarrow> (exn + unit) \<times> 'x"
  joiValidate :: "jsval \<Rightarrow> string option"
  notificationsInfo :: "NotificationCode \<Rightarrow> string \<Rightarrow> 'x \<Rightarrow> 'x"
  versionsAsync :: "'x \<Rightarrow> exn + jsval"
  getUsernameAsync :: "'x \<Rightarrow> exn + jsval"
  constructPublishUrlAsync :: "'x \<Rightarrow> string \<Rightarrow> jsval \<Rightarrow> exn + jsval"
  someRandomness :: "'x \<Rightarrow> jsval \<times> 'x"
  randomIdentifierForLoggedOutUser :: "'x \<Rightarrow> jsval \<times> 'x"
  dotExponentHomeDirectory :: "'x \<Rightarrow> string"
  recentExpsJsonFile :: "'x \<Rightarrow> JsonFile"
  userSettingsGetAsync :: "'x \<Rightarrow> string \<Rightarrow> jsval \<Rightarrow> exn + jsval"
  userSettingsSetAsync :: "string \<Rightarrow> jsval \<Rightarrow> 'x \<Rightarrow> (exn + unit) \<times> 'x"
  projectSettingsReadAsync :: "'x \<Rightarrow> string \<Rightarrow> exn + jsval"
  projectSettingsSetAsync :: "string \<Rightarrow> jsval \<Rightarrow> 'x \<Rightarrow> (exn + unit) \<times> 'x"
  objectAssign :: "jsval \<Rightarrow> jsval \<Rightarrow> exn + jsval"
  stringReplace :: "string \<Rightarrow> bool \<Rightarrow> jsval \<Rightarrow> string \<Rightarrow> string"
  toStringJS :: "jsval \<Rightarrow> string"

text \<open>
  \<^verbatim>\<open>JsonFile.readAsync(options)\<close>: the option \<^verbatim>\<open>cantReadFileDefault\<close> replaces the failure
  of an unreadable file by the given value; a text that does not parse still fails.
\<close>

definition readAsync :: "'x env \<Rightarrow> 'x \<Rightarrow> JsonFile \<Rightarrow> jsval option \<Rightarrow> exn + jsval" where
  "readAsync env x jf cantReadFileDefault =
     (case jsonRead env x jf of
        Parsed v \<Rightarrow> Inr v
      | BadJson e \<Rightarrow> Inl e
      | CantReadFile e \<Rightarrow> (case cantReadFileDefault of Some d \<Rightarrow> Inr d | None \<Rightarrow> Inl e))"

section \<open>Configuration resolution\<close>

definition packageJsonForRoot :: "'x env \<Rightarrow> string \<Rightarrow> JsonFile" where
  "packageJsonForRoot env root = \<lparr>filePath = path_join env root ''package.json'', json5 = False\<rparr>"

definition expJsonForRoot :: "'x env \<Rightarrow> string \<Rightarrow> JsonFile" where
  "expJsonForRoot env root = \<lparr>filePath = path_join env root ''exp.json'', json5 = True\<rparr>"

text \<open>
  Lines 38-43 of \<^verbatim>\<open>expConfigForRootAsync\<close>, and again lines 250-255 of
  \<^verbatim>\<open>getPublishInfoAsync\<close>: one \<^verbatim>\<open>try\<close> block holds both reads, \<^verbatim>\<open>package.json\<close> first. A
  failure of the first read leaves both variables \<^verbatim>\<open>undefined\<close>; a failure of the second
  leaves only \<^verbatim>\<open>exp\<close> so.
\<close>

definition readManifests :: "'x env \<Rightarrow> 'x \<Rightarrow> string \<Rightarrow> jsval \<times> jsval" where
  "readManifests env x root =
     (case readAsync env x (packageJsonForRoot env root) None of
        Inl e \<Rightarrow> (JUndefined, JUndefined)
      | Inr pkg \<Rightarrow>
          (case readAsync env x (expJsonForRoot env root) None of
             Inl e \<Rightarrow> (pkg, JUndefined)
           | Inr exp \<Rightarrow> (pkg, exp)))"

definition expConfigForRootAsync :: "'x env \<Rightarrow> 'x \<Rightarrow> string \<Rightarrow> exn + jsval" where
  "expConfigForRootAsync env x root =
     (case readManifests env x root of
        (pkg, exp) \<Rightarrow>
          if \<not> truthy exp \<and> truthy pkg then getProp pkg ''exp'' else Inr exp)"

definition determineEntryPointAsync :: "'x env \<Rightarrow> 'x \<Rightarrow> string \<Rightarrow> exn + jsval" where
  "determineEntryPointAsync env x root =
     bindE (expConfigForRootAsync env x root) (\<lambda>exp.
     bindE (readAsync env x (packageJsonForRoot env root) None) (\<lambda>pkg.
     bindE (getProp pkg ''main'') (\<lambda>main.
       let entryPoint = js_or main (JStr ''index.js'') in
       if truthy exp then
         bindE (getProp exp ''entryPoint'') (\<lambda>ep.
           if truthy ep then Inr ep else Inr entryPoint)
       else Inr entryPoint)))"

text \<open>
  A template literal \<^verbatim>\<open>`${v}`\<close> converts \<open>v\<close> to a string; a string is itself, the
  conversion of any other value is the language's \<^verbatim>\<open>ToString\<close>, a parameter.
\<close>

definition templateStr :: "'x env \<Rightarrow> jsval \<Rightarrow> string" where
  "templateStr env v = (case v of JStr s \<Rightarrow> s | _ \<Rightarrow> toStringJS env v)"

record PublishArgs =
  username :: jsval
  localPackageName :: jsval
  packageVersion :: jsval
  remoteUsername :: jsval
  remotePackageName :: jsval
  remoteFullPackageName :: string
  ngrokUrl :: jsval
  sdkVersion :: jsval

record PublishInfo =
  args :: PublishArgs
  body :: jsval

text \<open>
  Lines 257-267 of \<^verbatim>\<open>getPublishInfoAsync\<close>: from the two values read, the config, the
  name and the version. The legacy branch (config embedded in \<^verbatim>\<open>package.json\<close>) takes
  name and version from \<^verbatim>\<open>package.json\<close> alone; the other branch takes the name from the
  config's \<^verbatim>\<open>slug\<close> and the version from \<^verbatim>\<open>pkg.version || exp.version\<close>.
\<close>

definition resolvePublishFields :: "jsval \<Rightarrow> jsval \<Rightarrow> exn + (jsval \<times> jsval \<times> jsval)" where
  "resolvePublishFields pkg exp =
     bindE (if \<not> truthy exp \<and> truthy pkg
            then bindE (getProp pkg ''exp'') (\<lambda>e. Inr (truthy e))
            else Inr False) (\<lambda>legacy.
       if legacy then
         bindE (getProp pkg ''exp'') (\<lambda>exp'.
         bindE (getProp pkg ''name'') (\<lambda>name.
         bindE (getProp pkg ''version'') (\<lambda>version.
           Inr (exp', name, version))))
       else if truthy exp \<and> truthy pkg then
         bindE (getProp exp ''slug'') (\<lambda>name.
         bindE (getProp pkg ''version'') (\<lambda>pv.
           if truthy pv then Inr (exp, name, pv)
           else bindE (getProp exp ''version'') (\<lambda>ev. Inr (exp, name, ev))))
       else Inr (exp, JUndefined, JUndefined))"

text \<open>Line 269: \<^verbatim>\<open>!exp || !exp.sdkVersion\<close>.\<close>

definition sdkVersionMissing :: "jsval \<Rightarrow> exn + bool" where
  "sdkVersionMissing exp =
     (if \<not> truthy exp then Inr True
      else bindE (getProp exp ''sdkVersion'') (\<lambda>s. Inr (\<not> truthy s)))"

definition getPublishInfoAsync :: "'x env \<Rightarrow> 'x \<Rightarrow> string \<Rightarrow> exn + PublishInfo" where
  "getPublishInfoAsync env x root =
     bindE (getUsernameAsync env x) (\<lambda>username.
       if \<not> truthy username then Inl (Error ''Can't get username!'')
       else
         (case readManifests env x root of
            (pkg, exp0) \<Rightarrow>
              bindE (resolvePublishFields pkg exp0) (\<lambda>(exp, name, version).
              bindE (sdkVersionMissing exp) (\<lambda>missing.
                if missing then Inl (Error ''exp.sdkVersion is missing from package.json file'')
                else if \<not> truthy name then Inl (Error ''Can't get name of package.'')
                else if \<not> truthy version then Inl (Error ''Can't get version of package.'')
                else
                  bindE (getProp exp ''sdkVersion'') (\<lambda>sdk.
                  bindE (determineEntryPointAsync env x root) (\<lambda>entryPoint.
                  bindE (constructPublishUrlAsync env x root entryPoint) (\<lambda>url.
                    Inr \<lparr>args =
                           \<lparr>username = username,
                            localPackageName = name,
                            packageVersion = version,
                            remoteUsername = username,
                            remotePackageName = name,
                            remoteFullPackageName =
                              ''@'' @ templateStr env username @ ''/'' @ templateStr env name,
                            ngrokUrl = url,
                            sdkVersion = sdk\<rparr>,
                          body = pkg\<rparr>)))))))"

section \<open>Calls that change the world\<close>

type_synonym ('x, 'a) io = "'x world \<Rightarrow> (exn + 'a) \<times> 'x world"

definition returnIO :: "'a \<Rightarrow> ('x, 'a) io" where
  "returnIO a w = (Inr a, w)"

definition throwIO :: "exn \<Rightarrow> ('x, 'a) io" where
  "throwIO e w = (Inl e, w)"

definition bindIO :: "('x, 'a) io \<Rightarrow> ('a \<Rightarrow> ('x, 'b) io) \<Rightarrow> ('x, 'b) io" where
  "bindIO m f w = (case m w of (Inl e, w') \<Rightarrow> (Inl e, w') | (Inr a, w') \<Rightarrow> f a w')"

text \<open>\<^verbatim>\<open>try { m } catch (e) { h }\<close>: the handler starts in the state the failed body left.\<close>

definition catchIO :: "('x, 'a) io \<Rightarrow> (exn \<Rightarrow> ('x, 'a) io) \<Rightarrow> ('x, 'a) io" where
  "catchIO m h w = (case m w of (Inl e, w') \<Rightarrow> h e w' | (Inr a, w') \<Rightarrow> (Inr a, w'))"

text \<open>A read of the external state, and a step that can throw without touching it.\<close>

definition readIO :: "('x \<Rightarrow> exn + 'a) \<Rightarrow> ('x, 'a) io" where
  "readIO r w = (r (ext w), w)"

definition liftE :: "exn + 'a \<Rightarrow> ('x, 'a) io" where
  "liftE r w = (r, w)"

text \<open>A mutating call on a collaborator: run it on the external state and record it.\<close>

definition callIO :: "call \<Rightarrow> ('x \<Rightarrow> (exn + 'a) \<times> 'x) \<Rightarrow> ('x, 'a) io" where
  "callIO c f w = (case f (ext w) of (r, x') \<Rightarrow> (r, \<lparr>ext = x', calls = calls w @ [c]\<rparr>))"

definition notify :: "'x env \<Rightarrow> NotificationCode \<Rightarrow> string \<Rightarrow> ('x, unit) io" where
  "notify env code msg = callIO (Notify code msg) (\<lambda>x. (Inr (), notificationsInfo env code msg x))"

text \<open>How many downloads, and how many generator calls, a record of calls holds.\<close>

fun isDownload :: "call \<Rightarrow> bool" where
  "isDownload (Download url dest) = True"
| "isDownload c = False"

definition downloads :: "'x world \<Rightarrow> nat" where
  "downloads w = length (filter isDownload (calls w))"

definition generated :: "call \<Rightarrow> 'x world \<Rightarrow> nat" where
  "generated g w = length (filter (\<lambda>c. c = g) (calls w))"

section \<open>Template cache and extraction\<close>

text \<open>Lines 67-68: the cache directory under the per-user home directory.\<close>

definition cacheDirPath :: "'x env \<Rightarrow> 'x \<Rightarrow> string" where
  "cacheDirPath env x = path_join env (dotExponentHomeDirectory env x) ''starter-app-cache''"

definition starterAppCacheDirectory :: "'x env \<Rightarrow> ('x, string) io" where
  "starterAppCacheDirectory env w =
     (let dir = cacheDirPath env (ext w) in
      bindIO (callIO (Mkdirp dir) (mkdirp env dir)) (\<lambda>u. returnIO dir) w)"

text \<open>Lines 74-75: \<^verbatim>\<open>versions.starterApps[name].version\<close> of what the registry answers.\<close>

definition registryVersion :: "'x env \<Rightarrow> 'x \<Rightarrow> string \<Rightarrow> exn + jsval" where
  "registryVersion env x name =
     bindE (versionsAsync env x) (\<lambda>versions.
     bindE (getProp versions ''starterApps'') (\<lambda>apps.
     bindE (getProp apps name) (\<lambda>app.
       getProp app ''version'')))"

definition starterAppFilename :: "'x env \<Rightarrow> string \<Rightarrow> jsval \<Rightarrow> string" where
  "starterAppFilename env name starterAppVersion =
     name @ ''-'' @ templateStr env starterAppVersion @ ''.tar.gz''"

definition starterAppUrl :: "string \<Rightarrow> string" where
  "starterAppUrl filename = ''https://s3.amazonaws.com/exp-starter-apps/'' @ filename"

definition downloadStarterAppAsync :: "'x env \<Rightarrow> string \<Rightarrow> ('x, string) io" where
  "downloadStarterAppAsync env name =
     bindIO (readIO (\<lambda>x. registryVersion env x name)) (\<lambda>starterAppVersion.
       let filename = starterAppFilename env name starterAppVersion in
       bindIO (starterAppCacheDirectory env) (\<lambda>dir.
         let starterAppPath = path_join env dir filename in
         bindIO (readIO (\<lambda>x. Inr (existsAsync env x starterAppPath))) (\<lambda>found.
           if found then returnIO starterAppPath
           else
             let url = starterAppUrl filename in
             bindIO (starterAppCacheDirectory env) (\<lambda>dest.
             bindIO (callIO (Download url dest) (download env url dest)) (\<lambda>u.
               returnIO starterAppPath)))))"

text \<open>
  \<^verbatim>\<open>_extract\<close>: the \<^verbatim>\<open>tar\<close> process first; whatever it throws is caught and dropped, and
  the \<^verbatim>\<open>tar.gz\<close> library runs in the state the failed process left. The options of the
  process (\<^verbatim>\<open>stdio\<close>, \<^verbatim>\<open>cwd\<close>) are constants of the source and part of the collaborator.
\<close>

definition extract_archive :: "'x env \<Rightarrow> string \<Rightarrow> string \<Rightarrow> ('x, unit) io" where
  "extract_archive env archive dir =
     catchIO
       (callIO (SpawnAsync ''tar'' [''-xvf'', archive, ''-C'', dir])
          (spawnAsync env ''tar'' [''-xvf'', archive, ''-C'', dir]))
       (\<lambda>e. callIO (TargzExtract archive dir) (targzExtract env archive dir))"

section \<open>Project creation\<close>

text \<open>\<^verbatim>\<open>path.join(selectedDir, name)\<close> throws a \<^verbatim>\<open>TypeError\<close> when \<^verbatim>\<open>name\<close> is not a string.\<close>

definition pathJoinJS :: "'x env \<Rightarrow> string \<Rightarrow> jsval \<Rightarrow> exn + string" where
  "pathJoinJS env dir v =
     (case v of JStr s \<Rightarrow> Inr (path_join env dir s) | _ \<Rightarrow> Inl (TypeError ''path.join''))"

definition directoryExistsMessage :: "string \<Rightarrow> string" where
  "directoryExistsMessage root =
     ''That directory already exists. Please choose a different parent directory or project name. (''
       @ root @ '')''"

text \<open>
  \<^verbatim>\<open>createNewExpAsync\<close>, lines 99-165. \<open>joiValidate\<close> is \<^verbatim>\<open>joi.promise.validate(opts, schema)\<close>
  for the schema of lines 101-103: \<open>None\<close> when it accepts, \<open>Some s\<close> with \<open>s\<close> the
  \<^verbatim>\<open>toString()\<close> of what it throws. \<open>statSync\<close> holds when \<^verbatim>\<open>fs.statSync(root)\<close> returns.
\<close>

definition createNewExpAsync ::
    "'x env \<Rightarrow> string \<Rightarrow> jsval \<Rightarrow> jsval \<Rightarrow> ('x, string) io" where
  "createNewExpAsync env selectedDir extraPackageJsonFields opts =
     (case joiValidate env opts of
        Some msg \<Rightarrow> throwIO (XDLError INVALID_OPTIONS msg)
      | None \<Rightarrow>
     bindIO (liftE (getProp opts ''name'')) (\<lambda>name.
     bindIO (liftE (pathJoinJS env selectedDir name)) (\<lambda>root.
     bindIO (readIO (\<lambda>x. Inr (statSync env x root))) (\<lambda>fileExists.
       if fileExists
       then throwIO (XDLError DIRECTORY_ALREADY_EXISTS (directoryExistsMessage root))
       else
     bindIO (callIO (Mkdirp root) (mkdirp env root)) (\<lambda>u.
     bindIO (notify env PROGRESS ''Downloading project files...'') (\<lambda>u.
     bindIO (downloadStarterAppAsync env ''default'') (\<lambda>starterAppPath.
     bindIO (notify env PROGRESS ''Extracting project files...'') (\<lambda>u.
     bindIO (extract_archive env starterAppPath root) (\<lambda>u.
     bindIO (notify env PROGRESS ''Customizing project...'') (\<lambda>u.
     bindIO (readIO (\<lambda>x. userSettingsGetAsync env x ''email'' JNull)) (\<lambda>author.
       let packageJsonFile = \<lparr>filePath = path_join env root ''package.json'', json5 = False\<rparr> in
     bindIO (readIO (\<lambda>x. readAsync env x packageJsonFile None)) (\<lambda>packageJson.
     bindIO (liftE (objectAssign env packageJson extraPackageJsonFields)) (\<lambda>packageJson.
     bindIO (liftE (objectAssign env packageJson
               (JObj [(''name'', name), (''version'', JStr ''0.0.0''),
                      (''description'', JStr ''Hello Exponent!''), (''author'', author)]))) (\<lambda>data.
     bindIO (callIO (JsonWrite (filePath packageJsonFile) data)
               (jsonWrite env packageJsonFile data)) (\<lambda>written.
     bindIO (readIO (\<lambda>x. readFile env x (path_join env root ''main.js''))) (\<lambda>mainJs.
     bindIO (liftE (getProp data ''name'')) (\<lambda>dataName.
       let customMainJs = stringReplace env ''__NAME__'' True dataName mainJs in
     bindIO (callIO (WriteFile (path_join env root ''main.js'') customMainJs)
               (writeFile env (path_join env root ''main.js'') customMainJs)) (\<lambda>u.
     bindIO (readIO (\<lambda>x. readFile env x (path_join env root ''exp.json''))) (\<lambda>expJson.
       let quoted = JStr ([CHR 0x22] @ templateStr env dataName @ [CHR 0x22]);
           customExpJson =
             stringReplace env ([CHR 0x22] @ ''my-new-project'' @ [CHR 0x22]) False quoted
               (stringReplace env ([CHR 0x22] @ ''My New Project'' @ [CHR 0x22]) False quoted
                  expJson) in
     bindIO (callIO (WriteFile (path_join env root ''exp.json'') customExpJson)
               (writeFile env (path_join env root ''exp.json'') customExpJson)) (\<lambda>u.
       returnIO root))))))))))))))))))))"

section \<open>Recent projects\<close>

text \<open>
  \<^verbatim>\<open>recentExps.filter(...)\<close> throws a \<^verbatim>\<open>TypeError\<close> unless the value read is an array.
  \<^verbatim>\<open>x !== root\<close> compares any value with a string: equal only for the same string.
\<close>

definition withoutRoot :: "string \<Rightarrow> jsval \<Rightarrow> exn + jsval list" where
  "withoutRoot root v =
     (case v of
        JArr xs \<Rightarrow> Inr (filter (\<lambda>x. x \<noteq> JStr root) xs)
      | _ \<Rightarrow> Inl (TypeError ''filter''))"

definition saveRecentExpRootAsync :: "'x env \<Rightarrow> string \<Rightarrow> ('x, jsval) io" where
  "saveRecentExpRootAsync env root0 w =
     (let root = path_resolve env root0;
          jf = recentExpsJsonFile env (ext w) in
      bindIO (readIO (\<lambda>x. readAsync env x jf (Some (JArr [])))) (\<lambda>recentExps.
      bindIO (liftE (withoutRoot root recentExps)) (\<lambda>kept.
        let recentExps = JStr root # kept;
            saved = JArr (take 100 recentExps) in
        callIO (JsonWrite (filePath jf) saved) (jsonWrite env jf saved))) w)"

section \<open>Generated identifiers\<close>

text \<open>A call of a generator: it draws from the external state and cannot throw.\<close>

definition genIO :: "call \<Rightarrow> ('x \<Rightarrow> jsval \<times> 'x) \<Rightarrow> ('x, jsval) io" where
  "genIO c g = callIO c (\<lambda>x. case g x of (v, x') \<Rightarrow> (Inr v, x'))"

text \<open>
  \<^verbatim>\<open>getProjectRandomnessAsync\<close>, lines 320-328. Line 325 calls \<^verbatim>\<open>ProjectSettings.setAsync\<close>
  without \<^verbatim>\<open>await\<close>: the function returns the value at once and the write is left in
  flight. The model returns that write as the third component; nothing in this module
  waits for it or sees its outcome.
\<close>

definition urlRandomnessWrite :: "'x env \<Rightarrow> string \<Rightarrow> jsval \<Rightarrow> ('x, unit) io" where
  "urlRandomnessWrite env projectRoot randomness =
     callIO (ProjectSettingsSet projectRoot (JObj [(''urlRandomness'', randomness)]))
       (projectSettingsSetAsync env projectRoot (JObj [(''urlRandomness'', randomness)]))"

definition getProjectRandomnessAsync ::
    "'x env \<Rightarrow> string \<Rightarrow> 'x world \<Rightarrow> (exn + jsval) \<times> 'x world \<times> ('x, unit) io list" where
  "getProjectRandomnessAsync env projectRoot w =
     (case projectSettingsReadAsync env (ext w) projectRoot of
        Inl e \<Rightarrow> (Inl e, w, [])
      | Inr ps \<Rightarrow>
          (case getProp ps ''urlRandomness'' of
             Inl e \<Rightarrow> (Inl e, w, [])
           | Inr randomness \<Rightarrow>
               if \<not> truthy randomness then
                 (case genIO SomeRandomness (someRandomness env) w of
                    (Inl e, w') \<Rightarrow> (Inl e, w', [])
                  | (Inr fresh, w') \<Rightarrow>
                      (Inr fresh, w', [urlRandomnessWrite env projectRoot fresh]))
               else (Inr randomness, w, [])))"

text \<open>
  A write left in flight completes at some later moment: its effect on the world lands
  then, and its outcome, success or failure, reaches nobody.
\<close>

definition settle :: "('x, unit) io \<Rightarrow> 'x world \<Rightarrow> 'x world" where
  "settle p w = snd (p w)"

definition getLoggedOutPlaceholderUsernameAsync :: "'x env \<Rightarrow> ('x, jsval) io" where
  "getLoggedOutPlaceholderUsernameAsync env =
     bindIO (readIO (\<lambda>x. userSettingsGetAsync env x ''loggedOutPlaceholderUsername'' JNull)) (\<lambda>lpu.
       if \<not> truthy lpu then
         bindIO (genIO RandomIdentifier (randomIdentifierForLoggedOutUser env)) (\<lambda>fresh.
         bindIO (callIO (UserSettingsSet ''loggedOutPlaceholderUsername'' fresh)
                   (userSettingsSetAsync env ''loggedOutPlaceholderUsername'' fresh)) (\<lambda>u.
           returnIO fresh))
       else returnIO lpu)"

section \<open>Vocabulary of the statements\<close>

text \<open>
  The property \<open>k\<close> of a value that may itself be absent: what the source's guarded reads
  \<^verbatim>\<open>v && v.k\<close> look at. A field is \<^emph>\<open>present\<close> when this value is truthy, which is how
  the source tests presence throughout.
\<close>

definition fieldOf :: "jsval \<Rightarrow> string \<Rightarrow> jsval" where
  "fieldOf v k = (case getProp v k of Inr a \<Rightarrow> a | Inl e \<Rightarrow> JUndefined)"

text \<open>
  The three fields \<^verbatim>\<open>getPublishInfoAsync\<close> requires, the first of them that is missing
  in the order \<^verbatim>\<open>sdkVersion\<close>, \<^verbatim>\<open>name\<close>, \<^verbatim>\<open>version\<close>, and the error lines 270, 274 and
  278 throw for each.
\<close>

datatype required_field = SdkVersion | Name | Version

definition firstMissingField :: "jsval \<Rightarrow> jsval \<Rightarrow> jsval \<Rightarrow> required_field option" where
  "firstMissingField exp name version =
     (if \<not> truthy (fieldOf exp ''sdkVersion'') then Some SdkVersion
      else if \<not> truthy name then Some Name
      else if \<not> truthy version then Some Version
      else None)"

fun missingFieldError :: "required_field \<Rightarrow> exn" where
  "missingFieldError SdkVersion = Error ''exp.sdkVersion is missing from package.json file''"
| "missingFieldError Name = Error ''Can't get name of package.''"
| "missingFieldError Version = Error ''Can't get version of package.''"

text \<open>
  What the template cache relies on from its collaborators, for a template \<open>name\<close>:
  creating a directory and downloading leave the registry's answer and the home
  directory as they were; creating a directory removes no file; and a download that
  succeeds leaves the file, named as in the URL, in the destination directory.
\<close>

definition cacheLaws :: "'x env \<Rightarrow> string \<Rightarrow> bool" where
  "cacheLaws env name =
     ((\<forall>d x r x'. mkdirp env d x = (r, x') \<longrightarrow>
          registryVersion env x' name = registryVersion env x name \<and>
          dotExponentHomeDirectory env x' = dotExponentHomeDirectory env x \<and>
          (\<forall>p. existsAsync env x p \<longrightarrow> existsAsync env x' p)) \<and>
      (\<forall>f dest x x'. download env (starterAppUrl f) dest x = (Inr (), x') \<longrightarrow>
          registryVersion env x' name = registryVersion env x name \<and>
          dotExponentHomeDirectory env x' = dotExponentHomeDirectory env x \<and>
          existsAsync env x' (path_join env dest f)))"

text \<open>
  The recency list after one use of \<open>root\<close>, in the specification's words: remove any
  occurrence of the path, insert it at the front, keep the first 100 entries.
\<close>

definition recordUse_list :: "string \<Rightarrow> jsval list \<Rightarrow> jsval list" where
  "recordUse_list root old = take 100 (JStr root # filter (\<lambda>x. x \<noteq> JStr root) old)"

text \<open>Calls of \<^verbatim>\<open>saveRecentExpRootAsync\<close> in sequence, each awaited, one per path.\<close>

fun recordAll :: "'x env \<Rightarrow> string list \<Rightarrow> ('x, unit) io" where
  "recordAll env [] = returnIO ()"
| "recordAll env (p # ps) = bindIO (saveRecentExpRootAsync env p) (\<lambda>r. recordAll env ps)"

text \<open>
  What the recency list relies on from the settings store: a write that succeeds is
  what the next read returns, and the store stays at the same file.
\<close>

definition recentLaws :: "'x env \<Rightarrow> JsonFile \<Rightarrow> bool" where
  "recentLaws env jf =
     (\<forall>x v r x'. jsonWrite env jf v x = (Inr r, x') \<longrightarrow>
        jsonRead env x' jf = Parsed v \<and> recentExpsJsonFile env x' = jf)"

text \<open>
  What the generated identifiers rely on from their collaborators: a value set in the
  user settings, or merged into the settings of the project, is what the next read
  returns, and the two generators return truthy values (non-empty strings).
\<close>

definition identifierLaws :: "'x env \<Rightarrow> string \<Rightarrow> bool" where
  "identifierLaws env projectRoot =
     ((\<forall>x v x'. userSettingsSetAsync env ''loggedOutPlaceholderUsername'' v x = (Inr (), x') \<longrightarrow>
          userSettingsGetAsync env x' ''loggedOutPlaceholderUsername'' JNull = Inr v) \<and>
      (\<forall>x. truthy (fst (randomIdentifierForLoggedOutUser env x))) \<and>
      (\<forall>x. truthy (fst (someRandomness env x))) \<and>
      (\<forall>x v x'. projectSettingsSetAsync env projectRoot (JObj [(''urlRandomness'', v)]) x = (Inr (), x') \<longrightarrow>
          (\<exists>ps. projectSettingsReadAsync env x' projectRoot = Inr ps \<and>
                getProp ps ''urlRandomness'' = Inr v)))"

section \<open>A small world to run the model in\<close>

text \<open>
  A concrete external state and concrete collaborators, used to run the functions above
  on explicit inputs: JSON files and text files by path, the paths that exist, the two
  settings stores, the version registry, the signed-in user and a counter that drives
  the generators.
\<close>

record disk =
  jsonFiles :: "(string \<times> jsval) list"
  textFiles :: "(string \<times> string) list"
  present :: "string list"
  userStore :: "(string \<times> jsval) list"
  projectStore :: "(string \<times> jsval) list"
  registry :: jsval
  user :: jsval
  seed :: nat

definition demo_jsonRead :: "disk \<Rightarrow> JsonFile \<Rightarrow> file_read" where
  "demo_jsonRead x jf =
     (case map_of (jsonFiles x) (filePath jf) of
        Some v \<Rightarrow> Parsed v
      | None \<Rightarrow> CantReadFile (Error ''ENOENT''))"

definition demo_readFile :: "disk \<Rightarrow> string \<Rightarrow> exn + string" where
  "demo_readFile x p =
     (case map_of (textFiles x) p of Some t \<Rightarrow> Inr t | None \<Rightarrow> Inl (Error ''ENOENT''))"

definition demo_download :: "string \<Rightarrow> string \<Rightarrow> disk \<Rightarrow> (exn + unit) \<times> disk" where
  "demo_download url dest x =
     (Inr (), x\<lparr>present := (dest @ ''/'' @ drop 42 url) # present x\<rparr>)"

definition demo_joiValidate :: "jsval \<Rightarrow> string option" where
  "demo_joiValidate opts =
     (case opts of
        JObj [(k, JStr (c # cs))] \<Rightarrow> if k = ''name'' then None else Some ''ValidationError''
      | _ \<Rightarrow> Some ''ValidationError'')"

definition demo_generate :: "disk \<Rightarrow> jsval \<times> disk" where
  "demo_generate x = (JStr (replicate (Suc (seed x)) (CHR ''r'')), x\<lparr>seed := Suc (seed x)\<rparr>)"

definition demo_projectSet :: "string \<Rightarrow> jsval \<Rightarrow> disk \<Rightarrow> (exn + unit) \<times> disk" where
  "demo_projectSet root v x =
     (case v of
        JObj kvs \<Rightarrow> (Inr (), x\<lparr>projectStore := kvs @ projectStore x\<rparr>)
      | _ \<Rightarrow> (Inl (TypeError ''merge''), x))"

definition demo_objectAssign :: "jsval \<Rightarrow> jsval \<Rightarrow> exn + jsval" where
  "demo_objectAssign target source =
     (case target of
        JObj t \<Rightarrow> (case source of JObj s \<Rightarrow> Inr (JObj (s @ t)) | _ \<Rightarrow> Inr target)
      | _ \<Rightarrow> Inl (TypeError ''assign''))"

definition demo_env :: "disk env" where
  "demo_env =
     \<lparr>path_join = (\<lambda>a b. a @ ''/'' @ b),
      path_resolve = (\<lambda>p. p),
      jsonRead = demo_jsonRead,
      jsonWrite = (\<lambda>jf v x. (Inr v, x\<lparr>jsonFiles := (filePath jf, v) # jsonFiles x\<rparr>)),
      statSync = (\<lambda>x p. p \<in> set (present x)),
      existsAsync = (\<lambda>x p. p \<in> set (present x)),
      readFile = demo_readFile,
      writeFile = (\<lambda>p t x. (Inr (), x\<lparr>textFiles := (p, t) # textFiles x\<rparr>)),
      mkdirp = (\<lambda>d x. (Inr (), x\<lparr>present := d # present x\<rparr>)),
      download = demo_download,
      spawnAsync = (\<lambda>cmd as x. (Inr (), x)),
      targzExtract = (\<lambda>a d x. (Inr (), x)),
      joiValidate = demo_joiValidate,
      notificationsInfo = (\<lambda>c m x. x),
      versionsAsync = (\<lambda>x. Inr (registry x)),
      getUsernameAsync = (\<lambda>x. Inr (user x)),
      constructPublishUrlAsync = (\<lambda>x root entry. Inr (JStr ''exp://localhost'')),
      someRandomness = demo_generate,
      randomIdentifierForLoggedOutUser = demo_generate,
      dotExponentHomeDirectory = (\<lambda>x. ''/home/.exponent''),
      recentExpsJsonFile = (\<lambda>x. \<lparr>filePath = ''/home/.exponent/exponent.json'', json5 = False\<rparr>),
      userSettingsGetAsync =
        (\<lambda>x k d. Inr (case map_of (userStore x) k of Some v \<Rightarrow> v | None \<Rightarrow> d)),
      userSettingsSetAsync = (\<lambda>k v x. (Inr (), x\<lparr>userStore := (k, v) # userStore x\<rparr>)),
      projectSettingsReadAsync = (\<lambda>x root. Inr (JObj (projectStore x))),
      projectSettingsSetAsync = demo_projectSet,
      objectAssign = demo_objectAssign,
      stringReplace = (\<lambda>pat global v t. t),
      toStringJS = (\<lambda>v. [])\<rparr>"

text \<open>
  The project roots: \<^verbatim>\<open>/app\<close> has both manifests, \<^verbatim>\<open>/legacy\<close> has only a
  \<^verbatim>\<open>package.json\<close> with an embedded \<^verbatim>\<open>exp\<close> section, \<^verbatim>\<open>/bare\<close> has only an \<^verbatim>\<open>exp.json\<close>,
  \<^verbatim>\<open>/plain\<close> has a \<^verbatim>\<open>package.json\<close> with neither \<^verbatim>\<open>main\<close> nor \<^verbatim>\<open>exp\<close>, \<^verbatim>\<open>/entry\<close> has a config
  with an \<^verbatim>\<open>entryPoint\<close> but no \<^verbatim>\<open>slug\<close>, and \<^verbatim>\<open>/nosdk\<close> has a config with a \<^verbatim>\<open>slug\<close> and a
  \<^verbatim>\<open>version\<close> but no \<^verbatim>\<open>sdkVersion\<close>, and \<^verbatim>\<open>/released\<close> is \<^verbatim>\<open>/legacy\<close> with a \<^verbatim>\<open>version\<close> in its
  \<^verbatim>\<open>package.json\<close>.
\<close>

definition app_pkg :: jsval where
  "app_pkg = JObj [(''name'', JStr ''app''), (''main'', JStr ''main.js''),
                   (''exp'', JObj [(''sdkVersion'', JStr ''6.0.0'')])]"

definition app_exp :: jsval where
  "app_exp = JObj [(''name'', JStr ''App''), (''slug'', JStr ''app''),
                   (''version'', JStr ''1.2.0''), (''sdkVersion'', JStr ''7.0.0'')]"

definition legacy_section :: jsval where
  "legacy_section = JObj [(''sdkVersion'', JStr ''5.0.0''), (''version'', JStr ''0.9.0'')]"

definition legacy_pkg :: jsval where
  "legacy_pkg = JObj [(''name'', JStr ''legacy''), (''exp'', legacy_section)]"

definition plain_pkg :: jsval where
  "plain_pkg = JObj [(''name'', JStr ''plain'')]"

definition entry_pkg :: jsval where
  "entry_pkg = JObj [(''name'', JStr ''entry''), (''main'', JStr ''other.js'')]"

definition entry_exp :: jsval where
  "entry_exp = JObj [(''entryPoint'', JStr ''start.js''), (''sdkVersion'', JStr ''7.0.0'')]"

definition nosdk_exp :: jsval where
  "nosdk_exp = JObj [(''slug'', JStr ''nosdk''), (''version'', JStr ''2.0.0'')]"

definition released_pkg :: jsval where
  "released_pkg = JObj [(''name'', JStr ''released''), (''version'', JStr ''3.1.0''),
                        (''exp'', legacy_section)]"

definition demo_disk :: disk where
  "demo_disk =
     \<lparr>jsonFiles = [(''/app/package.json'', app_pkg), (''/app/exp.json'', app_exp),
                   (''/legacy/package.json'', legacy_pkg), (''/bare/exp.json'', app_exp),
                   (''/plain/package.json'', plain_pkg),
                   (''/entry/package.json'', entry_pkg), (''/entry/exp.json'', entry_exp),
                   (''/nosdk/package.json'', plain_pkg), (''/nosdk/exp.json'', nosdk_exp),
                   (''/released/package.json'', released_pkg)],
      textFiles = [],
      present = [''/projects/app''],
      userStore = [],
      projectStore = [],
      registry = JObj [(''starterApps'', JObj [(''default'', JObj [(''version'', JStr ''1.0.0'')])])],
      user = JStr ''dev'',
      seed = 0\<rparr>"

definition demo_world :: "disk world" where
  "demo_world = \<lparr>ext = demo_disk, calls = []\<rparr>"

text \<open>What \<^verbatim>\<open>getPublishInfoAsync\<close> returns for \<^verbatim>\<open>/app\<close> and for \<^verbatim>\<open>/released\<close>.\<close>

definition released_info :: PublishInfo where
  "released_info =
     \<lparr>args = \<lparr>username = JStr ''dev'', localPackageName = JStr ''released'',
              packageVersion = JStr ''3.1.0'', remoteUsername = JStr ''dev'',
              remotePackageName = JStr ''released'', remoteFullPackageName = ''@dev/released'',
              ngrokUrl = JStr ''exp://localhost'', sdkVersion = JStr ''5.0.0''\<rparr>,
      body = released_pkg\<rparr>"

definition app_info :: PublishInfo where
  "app_info =
     \<lparr>args = \<lparr>username = JStr ''dev'', localPackageName = JStr ''app'',
              packageVersion = JStr ''1.2.0'', remoteUsername = JStr ''dev'',
              remotePackageName = JStr ''app'', remoteFullPackageName = ''@dev/app'',
              ngrokUrl = JStr ''exp://localhost'', sdkVersion = JStr ''7.0.0''\<rparr>,
      body = app_pkg\<rparr>"

text \<open>
  The same collaborators, except that the \<^verbatim>\<open>tar\<close> process fails after unpacking one file
  and the \<^verbatim>\<open>tar.gz\<close> library fails after unpacking another.
\<close>

definition broken_tar_env :: "disk env" where
  "broken_tar_env =
     demo_env\<lparr>spawnAsync :=
                (\<lambda>cmd as x. (Inl (Error ''spawn tar ENOENT''),
                              x\<lparr>present := ''/projects/new/a'' # present x\<rparr>)),
              targzExtract :=
                (\<lambda>a d x. (Inl (Error ''unexpected end of file''),
                           x\<lparr>present := (d @ ''/b'') # present x\<rparr>))\<rparr>"

text \<open>A world whose cache already holds the archive of the default template.\<close>

definition warm_world :: "disk world" where
  "warm_world =
     \<lparr>ext = demo_disk\<lparr>present := [''/home/.exponent/starter-app-cache/default-1.0.0.tar.gz'']\<rparr>,
      calls = []\<rparr>"

text \<open>105 distinct project paths.\<close>

definition paths105 :: "string list" where
  "paths105 = map (\<lambda>n. ''/p'' @ replicate n (CHR ''x'')) [0..<105]"

text \<open>
  A world whose stores already hold both identifiers, and collaborators whose project
  settings cannot be written.
\<close>

definition named_world :: "disk world" where
  "named_world =
     \<lparr>ext = demo_disk\<lparr>userStore := [(''loggedOutPlaceholderUsername'', JStr ''anonymous-7'')],
                        projectStore := [(''urlRandomness'', JStr ''ab-cde'')]\<rparr>,
      calls = []\<rparr>"

definition readonly_project_env :: "disk env" where
  "readonly_project_env =
     demo_env\<lparr>projectSettingsSetAsync := (\<lambda>root v x. (Inl (Error ''EACCES''), x))\<rparr>"

section \<open>Properties of configuration resolution\<close>

lemma truthy_fieldOf: "truthy v \<Longrightarrow> getProp v k = Inr (fieldOf v k)"
  by (cases v) (auto simp: fieldOf_def)

lemma fieldOf_falsy: "\<not> truthy v \<Longrightarrow> fieldOf v k = JUndefined"
  by (cases v) (auto simp: fieldOf_def)

lemma truthy_fieldOf_truthy: "truthy (fieldOf v k) \<Longrightarrow> truthy v"
  using fieldOf_falsy[of v k] by (cases "truthy v") auto

text \<open>
  \<^verbatim>\<open>expConfigForRootAsync\<close> never throws: every read failure is swallowed by the
  \<^verbatim>\<open>catch\<close>, and \<^verbatim>\<open>pkg.exp\<close> is read only from a truthy \<^verbatim>\<open>pkg\<close>.
\<close>

lemma expConfig_eq:
  "readManifests env x root = (pkg, exp) \<Longrightarrow>
   expConfigForRootAsync env x root =
     Inr (if \<not> truthy exp \<and> truthy pkg then fieldOf pkg ''exp'' else exp)"
  by (simp add: expConfigForRootAsync_def truthy_fieldOf)

lemma expConfig_total: "\<exists>cfg. expConfigForRootAsync env x root = Inr cfg"
  by (cases "readManifests env x root") (simp add: expConfig_eq)

text \<open>Lines 257-267 and line 269 never throw either; in closed form:\<close>

lemma resolvePublishFields_eq:
  "resolvePublishFields pkg exp =
     Inr (if \<not> truthy exp \<and> truthy pkg \<and> truthy (fieldOf pkg ''exp'')
          then (fieldOf pkg ''exp'', fieldOf pkg ''name'', fieldOf pkg ''version'')
          else if truthy exp \<and> truthy pkg
          then (exp, fieldOf exp ''slug'', js_or (fieldOf pkg ''version'') (fieldOf exp ''version''))
          else (exp, JUndefined, JUndefined))"
  by (simp add: resolvePublishFields_def bindE_def truthy_fieldOf js_or_def)

lemma sdkVersionMissing_eq:
  "sdkVersionMissing exp = Inr (\<not> truthy (fieldOf exp ''sdkVersion''))"
  by (cases "truthy exp") (simp_all add: sdkVersionMissing_def bindE_def truthy_fieldOf fieldOf_falsy)

lemmas demo_reads =
  demo_env_def demo_disk_def demo_jsonRead_def readAsync_def packageJsonForRoot_def
  expJsonForRoot_def app_pkg_def app_exp_def legacy_pkg_def legacy_section_def
  plain_pkg_def entry_pkg_def entry_exp_def nosdk_exp_def released_pkg_def

text \<open>
  Claim C1. When both \<^verbatim>\<open>package.json\<close> and \<^verbatim>\<open>exp.json\<close> are read and the standalone
  manifest is present (its parsed content is truthy, as every JSON object is),
  \<^verbatim>\<open>expConfigForRootAsync\<close> returns exactly that content, whatever \<^verbatim>\<open>package.json\<close> embeds
  under \<^verbatim>\<open>exp\<close>. When only \<^verbatim>\<open>package.json\<close> is read and it is an object with an \<^verbatim>\<open>exp\<close>
  section, that section is returned.
\<close>

theorem resolveConfig_precedence:
  "(readAsync env x (packageJsonForRoot env root) None = Inr pkg \<and>
    readAsync env x (expJsonForRoot env root) None = Inr exp \<and> truthy exp
      \<longrightarrow> expConfigForRootAsync env x root = Inr exp) \<and>
   (readAsync env x (packageJsonForRoot env root) None = Inr (JObj kvs) \<and>
    readAsync env x (expJsonForRoot env root) None = Inl e \<and>
    map_of kvs ''exp'' = Some embedded
      \<longrightarrow> expConfigForRootAsync env x root = Inr embedded)"
  by (simp add: expConfigForRootAsync_def readManifests_def)

theorem resolveConfig_precedence_witness:
  "expConfigForRootAsync demo_env demo_disk ''/app'' = Inr app_exp \<and>
   expConfigForRootAsync demo_env demo_disk ''/legacy'' = Inr legacy_section"
proof -
  have a1: "readAsync demo_env demo_disk (packageJsonForRoot demo_env ''/app'') None = Inr app_pkg"
    by (simp add: demo_reads)
  have a2: "readAsync demo_env demo_disk (expJsonForRoot demo_env ''/app'') None = Inr app_exp"
    by (simp add: demo_reads)
  have a3: "truthy app_exp"
    by (simp add: app_exp_def)
  have b1: "readAsync demo_env demo_disk (packageJsonForRoot demo_env ''/legacy'') None =
              Inr (JObj [(''name'', JStr ''legacy''), (''exp'', legacy_section)])"
    by (simp add: demo_reads)
  have b2: "readAsync demo_env demo_disk (expJsonForRoot demo_env ''/legacy'') None =
              Inl (Error ''ENOENT'')"
    by (simp add: demo_reads)
  have b3: "map_of [(''name'', JStr ''legacy''), (''exp'', legacy_section)] ''exp'' =
              Some legacy_section"
    by simp
  from resolveConfig_precedence[of demo_env demo_disk "''/app''" app_pkg app_exp] a1 a2 a3
  have "expConfigForRootAsync demo_env demo_disk ''/app'' = Inr app_exp"
    by blast
  moreover
  from resolveConfig_precedence[of demo_env demo_disk "''/legacy''" _ _
      "[(''name'', JStr ''legacy''), (''exp'', legacy_section)]" "Error ''ENOENT''" legacy_section]
    b1 b2 b3
  have "expConfigForRootAsync demo_env demo_disk ''/legacy'' = Inr legacy_section"
    by blast
  ultimately show ?thesis by simp
qed

text \<open>
  Claim C10. When reading \<^verbatim>\<open>package.json\<close> fails, \<^verbatim>\<open>exp.json\<close> is never read: both
  variables stay \<^verbatim>\<open>undefined\<close>, \<^verbatim>\<open>expConfigForRootAsync\<close> returns \<^verbatim>\<open>undefined\<close> whatever
  \<^verbatim>\<open>exp.json\<close> holds, and \<^verbatim>\<open>getPublishInfoAsync\<close>, which resolves its config by the same
  \<^verbatim>\<open>try\<close> block, finds no config and fails on \<^verbatim>\<open>sdkVersion\<close> (for a signed-in user).
\<close>

theorem resolveConfig_pkg_unreadable:
  assumes "readAsync env x (packageJsonForRoot env root) None = Inl e"
  shows "readManifests env x root = (JUndefined, JUndefined) \<and>
         expConfigForRootAsync env x root = Inr JUndefined \<and>
         (getUsernameAsync env x = Inr u \<and> truthy u \<longrightarrow>
            getPublishInfoAsync env x root =
              Inl (Error ''exp.sdkVersion is missing from package.json file''))"
  using assms
  by (simp add: expConfigForRootAsync_def readManifests_def getPublishInfoAsync_def
      resolvePublishFields_def sdkVersionMissing_def bindE_def)

theorem resolveConfig_pkg_unreadable_witness:
  "readAsync demo_env demo_disk (expJsonForRoot demo_env ''/bare'') None = Inr app_exp \<and>
   readManifests demo_env demo_disk ''/bare'' = (JUndefined, JUndefined) \<and>
   expConfigForRootAsync demo_env demo_disk ''/bare'' = Inr JUndefined \<and>
   getPublishInfoAsync demo_env demo_disk ''/bare'' =
     Inl (Error ''exp.sdkVersion is missing from package.json file'')"
proof -
  have h: "readAsync demo_env demo_disk (packageJsonForRoot demo_env ''/bare'') None =
             Inl (Error ''ENOENT'')"
    by (simp add: demo_reads)
  have r: "readAsync demo_env demo_disk (expJsonForRoot demo_env ''/bare'') None = Inr app_exp"
    by (simp add: demo_reads)
  have u: "getUsernameAsync demo_env demo_disk = Inr (JStr ''dev'') \<and> truthy (JStr ''dev'')"
    by (simp add: demo_env_def demo_disk_def)
  from resolveConfig_pkg_unreadable[OF h, of "JStr ''dev''"] u r show ?thesis
    by blast
qed

lemma demo_config:
  "expConfigForRootAsync demo_env demo_disk ''/plain'' = Inr JUndefined"
  "expConfigForRootAsync demo_env demo_disk ''/app'' = Inr app_exp"
  "expConfigForRootAsync demo_env demo_disk ''/entry'' = Inr entry_exp"
  "expConfigForRootAsync demo_env demo_disk ''/nosdk'' = Inr nosdk_exp"
  by (simp_all add: expConfigForRootAsync_def readManifests_def demo_reads)

lemma demo_user: "getUsernameAsync demo_env demo_disk = Inr (JStr ''dev'')" "truthy (JStr ''dev'')"
  by (simp_all add: demo_env_def demo_disk_def)

text \<open>
  Claim C9. With \<^verbatim>\<open>package.json\<close> read and \<^verbatim>\<open>pkg.main\<close> evaluated to \<open>main\<close> (it is
  \<^verbatim>\<open>undefined\<close> when the manifest has no such field), and \<open>cfg\<close> the resolved config:
  \<^verbatim>\<open>determineEntryPointAsync\<close> returns \<^verbatim>\<open>"index.js"\<close> when neither \<^verbatim>\<open>main\<close> nor the config's
  \<^verbatim>\<open>entryPoint\<close> is present, \<^verbatim>\<open>main\<close> when only \<^verbatim>\<open>main\<close> is present, and the config's
  \<^verbatim>\<open>entryPoint\<close> whenever that is present, whatever \<^verbatim>\<open>main\<close> is.
\<close>

theorem determineEntryPoint_cases:
  assumes "readAsync env x (packageJsonForRoot env root) None = Inr pkg"
      and "getProp pkg ''main'' = Inr main"
      and "expConfigForRootAsync env x root = Inr cfg"
  shows "(\<not> truthy main \<and> \<not> truthy (fieldOf cfg ''entryPoint'')
            \<longrightarrow> determineEntryPointAsync env x root = Inr (JStr ''index.js'')) \<and>
         (truthy main \<and> \<not> truthy (fieldOf cfg ''entryPoint'')
            \<longrightarrow> determineEntryPointAsync env x root = Inr main) \<and>
         (truthy (fieldOf cfg ''entryPoint'')
            \<longrightarrow> determineEntryPointAsync env x root = Inr (fieldOf cfg ''entryPoint''))"
proof (cases "truthy cfg")
  case True
  then show ?thesis
    using assms by (simp add: determineEntryPointAsync_def bindE_def js_or_def truthy_fieldOf)
next
  case False
  then show ?thesis
    using assms by (simp add: determineEntryPointAsync_def bindE_def js_or_def fieldOf_falsy)
qed

theorem determineEntryPoint_cases_witness:
  "determineEntryPointAsync demo_env demo_disk ''/plain'' = Inr (JStr ''index.js'') \<and>
   determineEntryPointAsync demo_env demo_disk ''/app'' = Inr (JStr ''main.js'') \<and>
   determineEntryPointAsync demo_env demo_disk ''/entry'' = Inr (JStr ''start.js'')"
proof -
  have p: "readAsync demo_env demo_disk (packageJsonForRoot demo_env ''/plain'') None = Inr plain_pkg"
          "getProp plain_pkg ''main'' = Inr JUndefined"
          "fieldOf JUndefined ''entryPoint'' = JUndefined"
    by (simp_all add: demo_reads fieldOf_def)
  have a: "readAsync demo_env demo_disk (packageJsonForRoot demo_env ''/app'') None = Inr app_pkg"
          "getProp app_pkg ''main'' = Inr (JStr ''main.js'')"
          "fieldOf app_exp ''entryPoint'' = JUndefined"
    by (simp_all add: demo_reads fieldOf_def)
  have e: "readAsync demo_env demo_disk (packageJsonForRoot demo_env ''/entry'') None = Inr entry_pkg"
          "getProp entry_pkg ''main'' = Inr (JStr ''other.js'')"
          "fieldOf entry_exp ''entryPoint'' = JStr ''start.js''"
    by (simp_all add: demo_reads fieldOf_def)
  from determineEntryPoint_cases[OF p(1,2) demo_config(1)] p(3)
  have "determineEntryPointAsync demo_env demo_disk ''/plain'' = Inr (JStr ''index.js'')"
    by simp
  moreover
  from determineEntryPoint_cases[OF a(1,2) demo_config(2)] a(3)
  have "determineEntryPointAsync demo_env demo_disk ''/app'' = Inr (JStr ''main.js'')"
    by simp
  moreover
  from determineEntryPoint_cases[OF e(1,2) demo_config(3)] e(3)
  have "determineEntryPointAsync demo_env demo_disk ''/entry'' = Inr (JStr ''start.js'')"
    by simp
  ultimately show ?thesis by simp
qed

text \<open>
  Claim C2. For a signed-in user, let \<open>exp\<close>, \<open>name\<close> and \<open>version\<close> be what lines 257-267
  derive from the manifests read. If any of the three required fields is missing, the
  call fails with the error of the first missing one in the order \<^verbatim>\<open>sdkVersion\<close>, \<^verbatim>\<open>name\<close>,
  \<^verbatim>\<open>version\<close>. In particular, when the resolved config (\<^verbatim>\<open>expConfigForRootAsync\<close>) has no
  \<^verbatim>\<open>sdkVersion\<close>, the failure is the \<^verbatim>\<open>sdkVersion\<close> one, whatever name and version are.
\<close>

theorem publish_first_missing_field:
  assumes "getUsernameAsync env x = Inr u" and "truthy u"
      and "readManifests env x root = (pkg, exp0)"
      and "resolvePublishFields pkg exp0 = Inr (exp, name, version)"
  shows "(firstMissingField exp name version = Some f
            \<longrightarrow> getPublishInfoAsync env x root = Inl (missingFieldError f)) \<and>
         (expConfigForRootAsync env x root = Inr cfg \<and> \<not> truthy (fieldOf cfg ''sdkVersion'')
            \<longrightarrow> getPublishInfoAsync env x root = Inl (missingFieldError SdkVersion))"
proof (intro conjI impI)
  assume "firstMissingField exp name version = Some f"
  then show "getPublishInfoAsync env x root = Inl (missingFieldError f)"
    using assms
    by (auto simp: getPublishInfoAsync_def bindE_def sdkVersionMissing_eq firstMissingField_def
        split: if_splits)
next
  assume a: "expConfigForRootAsync env x root = Inr cfg \<and> \<not> truthy (fieldOf cfg ''sdkVersion'')"
  have "\<not> truthy (fieldOf exp ''sdkVersion'')"
    using a assms(3,4) fieldOf_falsy[of exp0 "''sdkVersion''"]
      fieldOf_falsy[of "fieldOf pkg ''exp''" "''sdkVersion''"]
    by (auto simp: expConfig_eq resolvePublishFields_eq split: if_splits)
  then show "getPublishInfoAsync env x root = Inl (missingFieldError SdkVersion)"
    using assms by (simp add: getPublishInfoAsync_def bindE_def sdkVersionMissing_eq)
qed

theorem publish_first_missing_field_witness:
  "firstMissingField nosdk_exp (JStr ''nosdk'') (JStr ''2.0.0'') = Some SdkVersion \<and>
   getPublishInfoAsync demo_env demo_disk ''/nosdk'' =
     Inl (Error ''exp.sdkVersion is missing from package.json file'') \<and>
   firstMissingField entry_exp JUndefined JUndefined = Some Name \<and>
   getPublishInfoAsync demo_env demo_disk ''/entry'' = Inl (Error ''Can't get name of package.'')"
proof -
  have n: "readManifests demo_env demo_disk ''/nosdk'' = (plain_pkg, nosdk_exp)"
          "resolvePublishFields plain_pkg nosdk_exp = Inr (nosdk_exp, JStr ''nosdk'', JStr ''2.0.0'')"
          "firstMissingField nosdk_exp (JStr ''nosdk'') (JStr ''2.0.0'') = Some SdkVersion"
          "\<not> truthy (fieldOf nosdk_exp ''sdkVersion'')"
    by (simp_all add: readManifests_def demo_reads resolvePublishFields_eq fieldOf_def js_or_def
        firstMissingField_def)
  have e: "readManifests demo_env demo_disk ''/entry'' = (entry_pkg, entry_exp)"
          "resolvePublishFields entry_pkg entry_exp = Inr (entry_exp, JUndefined, JUndefined)"
          "firstMissingField entry_exp JUndefined JUndefined = Some Name"
    by (simp_all add: readManifests_def demo_reads resolvePublishFields_eq fieldOf_def js_or_def
        firstMissingField_def)
  from publish_first_missing_field[OF demo_user n(1,2), of SdkVersion nosdk_exp] n(3,4) demo_config(4)
  have "getPublishInfoAsync demo_env demo_disk ''/nosdk'' =
          Inl (Error ''exp.sdkVersion is missing from package.json file'')"
    by simp
  moreover
  from publish_first_missing_field[OF demo_user e(1,2), of Name] e(3)
  have "getPublishInfoAsync demo_env demo_disk ''/entry'' = Inl (Error ''Can't get name of package.'')"
    by simp
  ultimately show ?thesis using n(3) e(3) by simp
qed

text \<open>
  In the legacy case, where \<^verbatim>\<open>exp.json\<close> gives no config and the config is the \<^verbatim>\<open>exp\<close>
  section of \<^verbatim>\<open>package.json\<close>, line 263 takes the version from \<^verbatim>\<open>package.json\<close> alone: the
  config's own \<^verbatim>\<open>version\<close> is never consulted, and without a \<^verbatim>\<open>version\<close> in
  \<^verbatim>\<open>package.json\<close> the call fails.
\<close>

lemma legacy_version_only_from_package:
  assumes "getUsernameAsync env x = Inr u" and "truthy u"
      and "readManifests env x root = (pkg, exp0)"
      and "\<not> truthy exp0" and "truthy pkg"
      and "truthy (fieldOf (fieldOf pkg ''exp'') ''sdkVersion'')"
      and "truthy (fieldOf pkg ''name'')"
      and "\<not> truthy (fieldOf pkg ''version'')"
  shows "getPublishInfoAsync env x root = Inl (missingFieldError Version)"
  using assms truthy_fieldOf_truthy[of "fieldOf pkg ''exp''" "''sdkVersion''"]
  by (simp add: getPublishInfoAsync_def bindE_def sdkVersionMissing_eq resolvePublishFields_eq)

lemma publish_returns_standalone:
  assumes "getPublishInfoAsync env x root = Inr info"
      and "readManifests env x root = (pkg, exp0)"
      and "truthy exp0"
  shows "packageVersion (args info) = js_or (fieldOf pkg ''version'') (fieldOf exp0 ''version'')"
  using assms
  by (auto simp: getPublishInfoAsync_def bindE_def sdkVersionMissing_eq
      resolvePublishFields_eq js_or_def
      split: sum.splits if_splits)

lemma publish_returns_legacy:
  assumes "getPublishInfoAsync env x root = Inr info"
      and "readManifests env x root = (pkg, exp0)"
      and "\<not> truthy exp0"
  shows "packageVersion (args info) = fieldOf pkg ''version'' \<and> truthy (fieldOf pkg ''version'') \<and>
         truthy pkg"
  using assms
  by (auto simp: getPublishInfoAsync_def bindE_def sdkVersionMissing_eq
      resolvePublishFields_eq js_or_def fieldOf_falsy
      split: sum.splits if_splits)

text \<open>
  Claim C8, as amended. Let \<open>pkg\<close> and \<open>exp0\<close> be what the two reads give and \<open>cfg\<close> the
  resolved config. When \<^verbatim>\<open>exp.json\<close> gives the config (\<open>exp0\<close> is present), a call that
  returns has as \<^verbatim>\<open>packageVersion\<close> the \<^verbatim>\<open>version\<close> of \<^verbatim>\<open>package.json\<close>, falling back to the
  config's \<^verbatim>\<open>version\<close> when that is absent. In the legacy case (\<open>exp0\<close> absent, the config is
  the \<^verbatim>\<open>exp\<close> section of \<^verbatim>\<open>package.json\<close>) there is no fallback: a call that returns has the
  \<^verbatim>\<open>version\<close> of \<^verbatim>\<open>package.json\<close>, which is present; and for a signed-in user, with an
  \<^verbatim>\<open>sdkVersion\<close> in the config and a name in \<^verbatim>\<open>package.json\<close> but no \<^verbatim>\<open>version\<close> there, the call
  fails on the version, whatever \<^verbatim>\<open>version\<close> the config holds.
\<close>

theorem publish_version_by_case:
  assumes "readManifests env x root = (pkg, exp0)"
      and "expConfigForRootAsync env x root = Inr cfg"
  shows "(getPublishInfoAsync env x root = Inr info \<and> truthy exp0
            \<longrightarrow> cfg = exp0 \<and>
                packageVersion (args info) =
                  js_or (fieldOf pkg ''version'') (fieldOf cfg ''version'')) \<and>
         (getPublishInfoAsync env x root = Inr info \<and> \<not> truthy exp0
            \<longrightarrow> cfg = fieldOf pkg ''exp'' \<and>
                packageVersion (args info) = fieldOf pkg ''version'' \<and>
                truthy (fieldOf pkg ''version'')) \<and>
         (getUsernameAsync env x = Inr u \<and> truthy u \<and> \<not> truthy exp0 \<and> truthy pkg \<and>
          truthy (fieldOf cfg ''sdkVersion'') \<and> truthy (fieldOf pkg ''name'') \<and>
          \<not> truthy (fieldOf pkg ''version'')
            \<longrightarrow> getPublishInfoAsync env x root = Inl (Error ''Can't get version of package.''))"
proof (intro conjI impI)
  assume a: "getPublishInfoAsync env x root = Inr info \<and> truthy exp0"
  then show "cfg = exp0"
    using assms by (simp add: expConfig_eq)
  with a publish_returns_standalone[OF _ assms(1), of info]
  show "packageVersion (args info) = js_or (fieldOf pkg ''version'') (fieldOf cfg ''version'')"
    by simp
next
  assume a: "getPublishInfoAsync env x root = Inr info \<and> \<not> truthy exp0"
  from a publish_returns_legacy[OF _ assms(1), of info]
  have k: "packageVersion (args info) = fieldOf pkg ''version'' \<and>
           truthy (fieldOf pkg ''version'') \<and> truthy pkg"
    by simp
  from k a assms show "cfg = fieldOf pkg ''exp''"
    by (simp add: expConfig_eq)
  from k show "packageVersion (args info) = fieldOf pkg ''version''" by simp
  from k show "truthy (fieldOf pkg ''version'')" by simp
next
  assume a: "getUsernameAsync env x = Inr u \<and> truthy u \<and> \<not> truthy exp0 \<and> truthy pkg \<and>
          truthy (fieldOf cfg ''sdkVersion'') \<and> truthy (fieldOf pkg ''name'') \<and>
          \<not> truthy (fieldOf pkg ''version'')"
  with assms have c: "cfg = fieldOf pkg ''exp''"
    by (simp add: expConfig_eq)
  from a c legacy_version_only_from_package[OF _ _ assms(1), of u]
  show "getPublishInfoAsync env x root = Inl (Error ''Can't get version of package.'')"
    by simp
qed

lemma demo_app_publish: "getPublishInfoAsync demo_env demo_disk ''/app'' = Inr app_info"
  by (simp add: getPublishInfoAsync_def bindE_def sdkVersionMissing_eq resolvePublishFields_eq
      determineEntryPointAsync_def expConfigForRootAsync_def readManifests_def demo_reads
      fieldOf_def js_or_def templateStr_def app_info_def)

lemma demo_released_publish:
  "getPublishInfoAsync demo_env demo_disk ''/released'' = Inr released_info"
  by (simp add: getPublishInfoAsync_def bindE_def sdkVersionMissing_eq resolvePublishFields_eq
      determineEntryPointAsync_def expConfigForRootAsync_def readManifests_def demo_reads
      fieldOf_def js_or_def templateStr_def released_info_def)

lemma demo_legacy_manifests:
  "readManifests demo_env demo_disk ''/legacy'' = (legacy_pkg, JUndefined)"
  "readManifests demo_env demo_disk ''/released'' = (released_pkg, JUndefined)"
  "readManifests demo_env demo_disk ''/app'' = (app_pkg, app_exp)"
  by (simp_all add: readManifests_def demo_reads)

lemma demo_legacy_config:
  "expConfigForRootAsync demo_env demo_disk ''/legacy'' = Inr legacy_section"
  "expConfigForRootAsync demo_env demo_disk ''/released'' = Inr legacy_section"
  by (simp_all add: expConfig_eq[OF demo_legacy_manifests(1)] expConfig_eq[OF demo_legacy_manifests(2)]
      legacy_pkg_def released_pkg_def fieldOf_def)

theorem publish_version_by_case_witness:
  "getPublishInfoAsync demo_env demo_disk ''/app'' = Inr app_info \<and>
   fieldOf app_pkg ''version'' = JUndefined \<and>
   packageVersion (args app_info) = JStr ''1.2.0'' \<and>
   getPublishInfoAsync demo_env demo_disk ''/released'' = Inr released_info \<and>
   packageVersion (args released_info) = JStr ''3.1.0'' \<and>
   getPublishInfoAsync demo_env demo_disk ''/legacy'' = Inl (Error ''Can't get version of package.'')"
proof -
  have v: "fieldOf app_pkg ''version'' = JUndefined" "fieldOf app_exp ''version'' = JStr ''1.2.0''"
          "truthy app_exp"
    by (simp_all add: fieldOf_def app_pkg_def app_exp_def)
  note app = publish_version_by_case[OF demo_legacy_manifests(3) demo_config(2),
      THEN conjunct1, THEN mp, OF conjI[OF demo_app_publish v(3)]]
  from app v have a: "packageVersion (args app_info) = JStr ''1.2.0''"
    by (simp add: js_or_def)
  have r: "fieldOf released_pkg ''version'' = JStr ''3.1.0''" "\<not> truthy JUndefined"
    by (simp_all add: fieldOf_def released_pkg_def)
  note rel = publish_version_by_case[OF demo_legacy_manifests(2) demo_legacy_config(2),
      THEN conjunct2, THEN conjunct1, THEN mp, OF conjI[OF demo_released_publish r(2)]]
  from rel r have b: "packageVersion (args released_info) = JStr ''3.1.0''"
    by simp
  have l: "getUsernameAsync demo_env demo_disk = Inr (JStr ''dev'') \<and> truthy (JStr ''dev'') \<and>
           \<not> truthy JUndefined \<and> truthy legacy_pkg \<and>
           truthy (fieldOf legacy_section ''sdkVersion'') \<and> truthy (fieldOf legacy_pkg ''name'') \<and>
           \<not> truthy (fieldOf legacy_pkg ''version'')"
    by (simp add: demo_user legacy_pkg_def legacy_section_def fieldOf_def)
  note leg = publish_version_by_case[OF demo_legacy_manifests(1) demo_legacy_config(1),
      THEN conjunct2, THEN conjunct2, THEN mp, OF l]
  from a b leg v(1) show ?thesis
    by (simp only: demo_app_publish demo_released_publish simp_thms)
qed

text \<open>
  The claim as stated, with the fallback "including the legacy case", fails at
  \<^verbatim>\<open>/legacy\<close>: the config is the \<^verbatim>\<open>exp\<close> section of \<^verbatim>\<open>package.json\<close> and has an \<^verbatim>\<open>sdkVersion\<close> and
  the \<^verbatim>\<open>version\<close> \<^verbatim>\<open>"0.9.0"\<close>, \<^verbatim>\<open>package.json\<close> has a name and no \<^verbatim>\<open>version\<close>, the user is signed
  in, and the call does not fall back to \<^verbatim>\<open>"0.9.0"\<close> but fails on the version.
\<close>

theorem publish_version_legacy_counterexample:
  "readManifests demo_env demo_disk ''/legacy'' = (legacy_pkg, JUndefined) \<and>
   expConfigForRootAsync demo_env demo_disk ''/legacy'' = Inr legacy_section \<and>
   getUsernameAsync demo_env demo_disk = Inr (JStr ''dev'') \<and>
   fieldOf legacy_section ''sdkVersion'' = JStr ''5.0.0'' \<and>
   fieldOf legacy_pkg ''name'' = JStr ''legacy'' \<and>
   fieldOf legacy_pkg ''version'' = JUndefined \<and>
   fieldOf legacy_section ''version'' = JStr ''0.9.0'' \<and>
   js_or (fieldOf legacy_pkg ''version'') (fieldOf legacy_section ''version'') = JStr ''0.9.0'' \<and>
   getPublishInfoAsync demo_env demo_disk ''/legacy'' = Inl (Error ''Can't get version of package.'')"
proof -
  have f: "\<not> truthy JUndefined" "truthy legacy_pkg"
          "truthy (fieldOf (fieldOf legacy_pkg ''exp'') ''sdkVersion'')"
          "truthy (fieldOf legacy_pkg ''name'')"
          "\<not> truthy (fieldOf legacy_pkg ''version'')"
    by (simp_all add: legacy_pkg_def legacy_section_def fieldOf_def)
  have g: "fieldOf legacy_section ''sdkVersion'' = JStr ''5.0.0''"
          "fieldOf legacy_pkg ''name'' = JStr ''legacy''"
          "fieldOf legacy_pkg ''version'' = JUndefined"
          "fieldOf legacy_section ''version'' = JStr ''0.9.0''"
    by (simp_all add: legacy_pkg_def legacy_section_def fieldOf_def)
  from legacy_version_only_from_package[OF demo_user demo_legacy_manifests(1) f]
  have e: "getPublishInfoAsync demo_env demo_disk ''/legacy'' = Inl (Error ''Can't get version of package.'')"
    by simp
  show ?thesis
    by (simp add: demo_legacy_manifests(1) demo_legacy_config(1) demo_user(1) g e js_or_def)
qed

section \<open>Properties of project creation\<close>

text \<open>
  Claim C7. \<^verbatim>\<open>_extract\<close> runs the \<^verbatim>\<open>tar\<close> process first. If it succeeds, that is the
  result and the library is not called. If it fails, with any error, the error is dropped
  and the \<^verbatim>\<open>tar.gz\<close> library runs in the state the process left; the outcome of the
  library, success or failure, is the outcome of \<^verbatim>\<open>_extract\<close>, and the final state is the
  one the library left, with no call after it: nothing is rolled back. So \<^verbatim>\<open>_extract\<close>
  fails only when both fail, and then with the library's error.
\<close>

theorem extract_fallback:
  "(spawnAsync env ''tar'' [''-xvf'', archive, ''-C'', dir] (ext w) = (Inr u, x1)
      \<longrightarrow> extract_archive env archive dir w =
            (Inr u, \<lparr>ext = x1, calls = calls w @ [SpawnAsync ''tar'' [''-xvf'', archive, ''-C'', dir]]\<rparr>)) \<and>
   (spawnAsync env ''tar'' [''-xvf'', archive, ''-C'', dir] (ext w) = (Inl e1, x1) \<and>
    targzExtract env archive dir x1 = (r, x2)
      \<longrightarrow> extract_archive env archive dir w =
            (r, \<lparr>ext = x2,
                 calls = calls w @ [SpawnAsync ''tar'' [''-xvf'', archive, ''-C'', dir],
                                    TargzExtract archive dir]\<rparr>)) \<and>
   (fst (extract_archive env archive dir w) = Inl e
      \<longrightarrow> (\<exists>e1 x1. spawnAsync env ''tar'' [''-xvf'', archive, ''-C'', dir] (ext w) = (Inl e1, x1) \<and>
                   fst (targzExtract env archive dir x1) = Inl e))"
proof (intro conjI impI)
  assume "spawnAsync env ''tar'' [''-xvf'', archive, ''-C'', dir] (ext w) = (Inr u, x1)"
  then show "extract_archive env archive dir w =
            (Inr u, \<lparr>ext = x1, calls = calls w @ [SpawnAsync ''tar'' [''-xvf'', archive, ''-C'', dir]]\<rparr>)"
    by (simp add: extract_archive_def catchIO_def callIO_def)
next
  assume "spawnAsync env ''tar'' [''-xvf'', archive, ''-C'', dir] (ext w) = (Inl e1, x1) \<and>
    targzExtract env archive dir x1 = (r, x2)"
  then show "extract_archive env archive dir w =
            (r, \<lparr>ext = x2,
                 calls = calls w @ [SpawnAsync ''tar'' [''-xvf'', archive, ''-C'', dir],
                                    TargzExtract archive dir]\<rparr>)"
    by (simp add: extract_archive_def catchIO_def callIO_def)
next
  assume a: "fst (extract_archive env archive dir w) = Inl e"
  obtain r1 x1 where p: "spawnAsync env ''tar'' [''-xvf'', archive, ''-C'', dir] (ext w) = (r1, x1)"
    by (cases "spawnAsync env ''tar'' [''-xvf'', archive, ''-C'', dir] (ext w)")
  obtain r2 x2 where q: "targzExtract env archive dir x1 = (r2, x2)"
    by (cases "targzExtract env archive dir x1")
  show "\<exists>e1 x1. spawnAsync env ''tar'' [''-xvf'', archive, ''-C'', dir] (ext w) = (Inl e1, x1) \<and>
                   fst (targzExtract env archive dir x1) = Inl e"
  proof (cases r1)
    case (Inl e1)
    with a p q show ?thesis
      by (simp add: extract_archive_def catchIO_def callIO_def)
  next
    case (Inr u)
    with a p show ?thesis
      by (simp add: extract_archive_def catchIO_def callIO_def)
  qed
qed


theorem extract_fallback_witness:
  "extract_archive demo_env ''/cache/default-1.0.0.tar.gz'' ''/projects/new'' demo_world =
     (Inr (), \<lparr>ext = demo_disk,
               calls = [SpawnAsync ''tar'' [''-xvf'', ''/cache/default-1.0.0.tar.gz'', ''-C'', ''/projects/new'']]\<rparr>) \<and>
   extract_archive broken_tar_env ''/cache/default-1.0.0.tar.gz'' ''/projects/new'' demo_world =
     (Inl (Error ''unexpected end of file''),
      \<lparr>ext = demo_disk\<lparr>present := [''/projects/new/b'', ''/projects/new/a'', ''/projects/app'']\<rparr>,
       calls = [SpawnAsync ''tar'' [''-xvf'', ''/cache/default-1.0.0.tar.gz'', ''-C'', ''/projects/new''],
                TargzExtract ''/cache/default-1.0.0.tar.gz'' ''/projects/new'']\<rparr>)"
proof -
  have p: "present demo_disk = [''/projects/app'']" and c: "calls demo_world = []"
      and x: "ext demo_world = demo_disk"
    by (simp_all add: demo_disk_def demo_world_def)
  have ok: "spawnAsync demo_env ''tar'' [''-xvf'', ''/cache/default-1.0.0.tar.gz'', ''-C'', ''/projects/new'']
              (ext demo_world) = (Inr (), demo_disk)"
    by (simp add: demo_env_def x)
  have bad: "spawnAsync broken_tar_env ''tar'' [''-xvf'', ''/cache/default-1.0.0.tar.gz'', ''-C'', ''/projects/new'']
              (ext demo_world) =
              (Inl (Error ''spawn tar ENOENT''), demo_disk\<lparr>present := [''/projects/new/a'', ''/projects/app'']\<rparr>) \<and>
             targzExtract broken_tar_env ''/cache/default-1.0.0.tar.gz'' ''/projects/new''
                (demo_disk\<lparr>present := [''/projects/new/a'', ''/projects/app'']\<rparr>) =
              (Inl (Error ''unexpected end of file''),
               demo_disk\<lparr>present := [''/projects/new/b'', ''/projects/new/a'', ''/projects/app'']\<rparr>)"
    by (simp add: broken_tar_env_def x p)
  note first = extract_fallback[THEN conjunct1, THEN mp, OF ok]
  note second = extract_fallback[THEN conjunct2, THEN conjunct1, THEN mp, OF bad]
  show ?thesis
    by (simp add: first second c)
qed

text \<open>
  Claim C3. When the options pass validation, \<^verbatim>\<open>opts.name\<close> is the string \<open>name\<close> and
  \<^verbatim>\<open>fs.statSync\<close> finds the target \<^verbatim>\<open>path.join(selectedDir, name)\<close>, \<^verbatim>\<open>createNewExpAsync\<close>
  fails with the \<^verbatim>\<open>DIRECTORY_ALREADY_EXISTS\<close> error whose message carries the target path,
  and the world is unchanged: the external state is the same and no mutating call
  (directory creation, download, extraction, file write) was made.
\<close>

theorem createNewExp_directory_exists:
  assumes "joiValidate env opts = None"
      and "getProp opts ''name'' = Inr (JStr name)"
      and "statSync env (ext w) (path_join env selectedDir name)"
  shows "createNewExpAsync env selectedDir extraPackageJsonFields opts w =
           (Inl (XDLError DIRECTORY_ALREADY_EXISTS
                   (directoryExistsMessage (path_join env selectedDir name))), w)"
  using assms
  by (simp add: createNewExpAsync_def bindIO_def liftE_def readIO_def throwIO_def pathJoinJS_def)

theorem createNewExp_directory_exists_witness:
  "createNewExpAsync demo_env ''/projects'' (JObj []) (JObj [(''name'', JStr ''app'')]) demo_world =
     (Inl (XDLError DIRECTORY_ALREADY_EXISTS
        ''That directory already exists. Please choose a different parent directory or project name. (/projects/app)''),
      demo_world) \<and>
   calls (snd (createNewExpAsync demo_env ''/projects'' (JObj []) (JObj [(''name'', JStr ''app'')])
     demo_world)) = []"
proof -
  have h: "joiValidate demo_env (JObj [(''name'', JStr ''app'')]) = None"
          "getProp (JObj [(''name'', JStr ''app'')]) ''name'' = Inr (JStr ''app'')"
          "statSync demo_env (ext demo_world) (path_join demo_env ''/projects'' ''app'')"
    by (simp_all add: demo_env_def demo_joiValidate_def demo_world_def demo_disk_def)
  from createNewExp_directory_exists[OF h, of "JObj []"] show ?thesis
    by (simp add: directoryExistsMessage_def demo_env_def demo_world_def)
qed

section \<open>Properties of the template cache\<close>

lemma starterAppCacheDirectory_eq:
  "starterAppCacheDirectory env w =
     (case mkdirp env (cacheDirPath env (ext w)) (ext w) of
        (Inl e, x') \<Rightarrow> (Inl e, \<lparr>ext = x', calls = calls w @ [Mkdirp (cacheDirPath env (ext w))]\<rparr>)
      | (Inr u, x') \<Rightarrow> (Inr (cacheDirPath env (ext w)),
                        \<lparr>ext = x', calls = calls w @ [Mkdirp (cacheDirPath env (ext w))]\<rparr>))"
  by (simp add: starterAppCacheDirectory_def bindIO_def callIO_def returnIO_def Let_def
      split: prod.splits sum.splits)

lemma download_hit:
  assumes "registryVersion env (ext w) name = Inr v"
      and "mkdirp env (cacheDirPath env (ext w)) (ext w) = (Inr u, x1)"
      and "existsAsync env x1 (path_join env (cacheDirPath env (ext w)) (starterAppFilename env name v))"
  shows "downloadStarterAppAsync env name w =
           (Inr (path_join env (cacheDirPath env (ext w)) (starterAppFilename env name v)),
            \<lparr>ext = x1, calls = calls w @ [Mkdirp (cacheDirPath env (ext w))]\<rparr>)"
  using assms
  by (simp add: downloadStarterAppAsync_def bindIO_def readIO_def returnIO_def Let_def
      starterAppCacheDirectory_eq)

lemma download_miss:
  assumes "registryVersion env (ext w) name = Inr v"
      and "mkdirp env (cacheDirPath env (ext w)) (ext w) = (Inr u, x1)"
      and "\<not> existsAsync env x1 (path_join env (cacheDirPath env (ext w)) (starterAppFilename env name v))"
      and "mkdirp env (cacheDirPath env x1) x1 = (Inr u', x2)"
      and "download env (starterAppUrl (starterAppFilename env name v)) (cacheDirPath env x1) x2 = (r, x3)"
  shows "downloadStarterAppAsync env name w =
           (case r of Inl e \<Rightarrow> Inl e
                    | Inr z \<Rightarrow> Inr (path_join env (cacheDirPath env (ext w)) (starterAppFilename env name v)),
            \<lparr>ext = x3,
             calls = calls w @ [Mkdirp (cacheDirPath env (ext w)), Mkdirp (cacheDirPath env x1),
                               Download (starterAppUrl (starterAppFilename env name v)) (cacheDirPath env x1)]\<rparr>)"
  using assms
  by (simp add: downloadStarterAppAsync_def bindIO_def readIO_def returnIO_def callIO_def Let_def
      starterAppCacheDirectory_eq split: sum.splits)


lemma download_mkdirp_fails:
  assumes "registryVersion env (ext w) name = Inr v"
      and "mkdirp env (cacheDirPath env (ext w)) (ext w) = (Inl e, x1)"
  shows "downloadStarterAppAsync env name w =
           (Inl e, \<lparr>ext = x1, calls = calls w @ [Mkdirp (cacheDirPath env (ext w))]\<rparr>)"
  using assms
  by (simp add: downloadStarterAppAsync_def bindIO_def readIO_def returnIO_def Let_def
      starterAppCacheDirectory_eq)

lemma download_miss_mkdirp_fails:
  assumes "registryVersion env (ext w) name = Inr v"
      and "mkdirp env (cacheDirPath env (ext w)) (ext w) = (Inr u, x1)"
      and "\<not> existsAsync env x1 (path_join env (cacheDirPath env (ext w)) (starterAppFilename env name v))"
      and "mkdirp env (cacheDirPath env x1) x1 = (Inl e, x2)"
  shows "fst (downloadStarterAppAsync env name w) = Inl e"
  using assms
  by (simp add: downloadStarterAppAsync_def bindIO_def readIO_def returnIO_def callIO_def Let_def
      starterAppCacheDirectory_eq)

lemma cacheLaws_mkdirp:
  assumes "cacheLaws env name" and "mkdirp env d x = (r, x')"
  shows "registryVersion env x' name = registryVersion env x name"
    and "cacheDirPath env x' = cacheDirPath env x"
    and "existsAsync env x p \<Longrightarrow> existsAsync env x' p"
proof -
  from assms(1) have "\<forall>d x r x'. mkdirp env d x = (r, x') \<longrightarrow>
          registryVersion env x' name = registryVersion env x name \<and>
          dotExponentHomeDirectory env x' = dotExponentHomeDirectory env x \<and>
          (\<forall>p. existsAsync env x p \<longrightarrow> existsAsync env x' p)"
    by (simp add: cacheLaws_def)
  with assms(2) have k: "registryVersion env x' name = registryVersion env x name \<and>
          dotExponentHomeDirectory env x' = dotExponentHomeDirectory env x \<and>
          (\<forall>p. existsAsync env x p \<longrightarrow> existsAsync env x' p)"
    by blast
  from k show "registryVersion env x' name = registryVersion env x name" by simp
  from k show "cacheDirPath env x' = cacheDirPath env x" by (simp add: cacheDirPath_def)
  from k show "existsAsync env x p \<Longrightarrow> existsAsync env x' p" by simp
qed

lemma cacheLaws_download:
  assumes "cacheLaws env name" and "download env (starterAppUrl f) dest x = (Inr (), x')"
  shows "registryVersion env x' name = registryVersion env x name"
    and "cacheDirPath env x' = cacheDirPath env x"
    and "existsAsync env x' (path_join env dest f)"
proof -
  from assms(1) have "\<forall>f dest x x'. download env (starterAppUrl f) dest x = (Inr (), x') \<longrightarrow>
          registryVersion env x' name = registryVersion env x name \<and>
          dotExponentHomeDirectory env x' = dotExponentHomeDirectory env x \<and>
          existsAsync env x' (path_join env dest f)"
    by (simp add: cacheLaws_def)
  with assms(2) have k: "registryVersion env x' name = registryVersion env x name \<and>
          dotExponentHomeDirectory env x' = dotExponentHomeDirectory env x \<and>
          existsAsync env x' (path_join env dest f)"
    by blast
  from k show "registryVersion env x' name = registryVersion env x name" by simp
  from k show "cacheDirPath env x' = cacheDirPath env x" by (simp add: cacheDirPath_def)
  from k show "existsAsync env x' (path_join env dest f)" by simp
qed

text \<open>A call that finds the archive in place before it starts performs no download.\<close>

lemma cached_no_download:
  assumes laws: "cacheLaws env name"
      and v: "registryVersion env (ext w) name = Inr v"
      and ex: "existsAsync env (ext w)
                 (path_join env (cacheDirPath env (ext w)) (starterAppFilename env name v))"
      and run: "downloadStarterAppAsync env name w = (r, w')"
  shows "downloads w' = downloads w"
proof -
  obtain rm x1 where m: "mkdirp env (cacheDirPath env (ext w)) (ext w) = (rm, x1)"
    by (cases "mkdirp env (cacheDirPath env (ext w)) (ext w)")
  show ?thesis
  proof (cases rm)
    case (Inl e)
    with download_mkdirp_fails[OF v] m run show ?thesis
      by (simp add: downloads_def)
  next
    case (Inr u)
    from cacheLaws_mkdirp(3)[OF laws m ex]
    have "existsAsync env x1
            (path_join env (cacheDirPath env (ext w)) (starterAppFilename env name v))" .
    with download_hit[OF v] m Inr run show ?thesis
      by (simp add: downloads_def)
  qed
qed

lemma demo_cacheLaws: "cacheLaws demo_env name"
  by (simp add: cacheLaws_def demo_env_def registryVersion_def demo_download_def starterAppUrl_def)

lemma demo_registry:
  "registry x = registry demo_disk \<Longrightarrow> registryVersion demo_env x ''default'' = Inr (JStr ''1.0.0'')"
  by (simp add: registryVersion_def bindE_def demo_env_def demo_disk_def)

lemma demo_cache_names:
  "cacheDirPath demo_env x = ''/home/.exponent/starter-app-cache''"
  "starterAppFilename demo_env ''default'' (JStr ''1.0.0'') = ''default-1.0.0.tar.gz''"
  "path_join demo_env ''/home/.exponent/starter-app-cache'' ''default-1.0.0.tar.gz'' =
     ''/home/.exponent/starter-app-cache/default-1.0.0.tar.gz''"
  by (simp_all add: cacheDirPath_def starterAppFilename_def templateStr_def demo_env_def)

lemma demo_mkdirp: "mkdirp demo_env d x = (Inr (), x\<lparr>present := d # present x\<rparr>)"
  by (simp add: demo_env_def)

lemma demo_exists: "existsAsync demo_env x p = (p \<in> set (present x))"
  by (simp add: demo_env_def)

lemma demo_download_file:
  "download demo_env (starterAppUrl f) dest x = (Inr (), x\<lparr>present := (dest @ ''/'' @ f) # present x\<rparr>)"
  by (simp add: demo_env_def demo_download_def starterAppUrl_def)

text \<open>
  Claim C4, as amended. If the registry gives version \<open>v\<close> for the template, the cache
  directory is ensured and the file \<^verbatim>\<open><name>-<v>.tar.gz\<close> is then found in it,
  \<^verbatim>\<open>_downloadStarterAppAsync\<close> returns that path and its only call is the \<^verbatim>\<open>mkdirp\<close>: no
  download. Consequently, with collaborators that satisfy \<open>cacheLaws\<close>, of two calls in
  sequence for the same name, the first of which returns, the second performs no download
  and the first performs none when it found the file and exactly one when it did not:
  at most one download in total.
\<close>

theorem templateCache_at_most_once:
  "(registryVersion env (ext w) name = Inr v \<and>
    mkdirp env (cacheDirPath env (ext w)) (ext w) = (Inr u, x1) \<and>
    existsAsync env x1 (path_join env (cacheDirPath env (ext w)) (starterAppFilename env name v))
      \<longrightarrow> downloadStarterAppAsync env name w =
            (Inr (path_join env (cacheDirPath env (ext w)) (starterAppFilename env name v)),
             \<lparr>ext = x1, calls = calls w @ [Mkdirp (cacheDirPath env (ext w))]\<rparr>)) \<and>
   (cacheLaws env name \<and>
    registryVersion env (ext w) name = Inr v \<and>
    mkdirp env (cacheDirPath env (ext w)) (ext w) = (Inr u, x1) \<and>
    downloadStarterAppAsync env name w = (Inr p, w1) \<and>
    downloadStarterAppAsync env name w1 = (r2, w2)
      \<longrightarrow> downloads w2 = downloads w1 \<and>
          downloads w1 = downloads w +
            (if existsAsync env x1
                  (path_join env (cacheDirPath env (ext w)) (starterAppFilename env name v))
             then 0 else 1))"
proof (intro conjI impI)
  assume "registryVersion env (ext w) name = Inr v \<and>
    mkdirp env (cacheDirPath env (ext w)) (ext w) = (Inr u, x1) \<and>
    existsAsync env x1 (path_join env (cacheDirPath env (ext w)) (starterAppFilename env name v))"
  then show "downloadStarterAppAsync env name w =
            (Inr (path_join env (cacheDirPath env (ext w)) (starterAppFilename env name v)),
             \<lparr>ext = x1, calls = calls w @ [Mkdirp (cacheDirPath env (ext w))]\<rparr>)"
    by (simp add: download_hit)
next
  let ?dir = "cacheDirPath env (ext w)"
  let ?path = "path_join env ?dir (starterAppFilename env name v)"
  assume a: "cacheLaws env name \<and>
    registryVersion env (ext w) name = Inr v \<and>
    mkdirp env ?dir (ext w) = (Inr u, x1) \<and>
    downloadStarterAppAsync env name w = (Inr p, w1) \<and>
    downloadStarterAppAsync env name w1 = (r2, w2)"
  then have laws: "cacheLaws env name" and v: "registryVersion env (ext w) name = Inr v"
    and m: "mkdirp env ?dir (ext w) = (Inr u, x1)"
    and first: "downloadStarterAppAsync env name w = (Inr p, w1)"
    and second: "downloadStarterAppAsync env name w1 = (r2, w2)"
    by simp_all
  have v1: "registryVersion env x1 name = Inr v" and d1: "cacheDirPath env x1 = ?dir"
    using cacheLaws_mkdirp(1,2)[OF laws m] v by simp_all
  have both: "downloads w2 = downloads w1 \<and>
          downloads w1 = downloads w + (if existsAsync env x1 ?path then 0 else 1)"
  proof (cases "existsAsync env x1 ?path")
    case True
    from download_hit[OF v m True] first
    have w1: "w1 = \<lparr>ext = x1, calls = calls w @ [Mkdirp ?dir]\<rparr>"
      by simp
    have "downloads w2 = downloads w1"
      using cached_no_download[OF laws, of w1 v r2 w2] v1 d1 True second
      by (simp add: w1)
    moreover have "downloads w1 = downloads w"
      by (simp add: w1 downloads_def)
    ultimately show ?thesis using True by simp
  next
    case False
    obtain rb x2 where mb: "mkdirp env (cacheDirPath env x1) x1 = (rb, x2)"
      by (cases "mkdirp env (cacheDirPath env x1) x1")
    obtain rd x3 where dl:
      "download env (starterAppUrl (starterAppFilename env name v)) (cacheDirPath env x1) x2 = (rd, x3)"
      by (cases "download env (starterAppUrl (starterAppFilename env name v)) (cacheDirPath env x1) x2")
    from download_miss_mkdirp_fails[OF v m False] mb first obtain ub where rb: "rb = Inr ub"
      by (cases rb) auto
    from download_miss[OF v m False mb[unfolded rb] dl] first
    have rd: "rd = Inr ()" and
      w1: "w1 = \<lparr>ext = x3,
                 calls = calls w @ [Mkdirp ?dir, Mkdirp (cacheDirPath env x1),
                   Download (starterAppUrl (starterAppFilename env name v)) (cacheDirPath env x1)]\<rparr>"
      by (cases rd; simp)+
    have v2: "registryVersion env x2 name = Inr v" and d2: "cacheDirPath env x2 = ?dir"
      using cacheLaws_mkdirp(1,2)[OF laws mb] v1 d1 by simp_all
    have v3: "registryVersion env x3 name = Inr v" and d3: "cacheDirPath env x3 = ?dir"
      and e3: "existsAsync env x3 ?path"
      using cacheLaws_download[OF laws dl[unfolded rd]] v2 d2 d1 by simp_all
    have "downloads w2 = downloads w1"
      using cached_no_download[OF laws, of w1 v r2 w2] v3 d3 e3 second
      by (simp add: w1)
    moreover have "downloads w1 = downloads w + 1"
      by (simp add: w1 downloads_def)
    ultimately show ?thesis using False by simp
  qed
  from both show "downloads w2 = downloads w1" by simp
  from both show "downloads w1 = downloads w + (if existsAsync env x1 ?path then 0 else 1)" by simp
qed

theorem templateCache_at_most_once_witness:
  "downloadStarterAppAsync demo_env ''default'' warm_world =
     (Inr ''/home/.exponent/starter-app-cache/default-1.0.0.tar.gz'',
      \<lparr>ext = ext warm_world\<lparr>present := [''/home/.exponent/starter-app-cache'',
                                         ''/home/.exponent/starter-app-cache/default-1.0.0.tar.gz'']\<rparr>,
       calls = [Mkdirp ''/home/.exponent/starter-app-cache'']\<rparr>) \<and>
   fst (downloadStarterAppAsync demo_env ''default'' demo_world) =
     Inr ''/home/.exponent/starter-app-cache/default-1.0.0.tar.gz'' \<and>
   downloads demo_world = 0 \<and>
   downloads (snd (downloadStarterAppAsync demo_env ''default'' demo_world)) = 1 \<and>
   downloads (snd (downloadStarterAppAsync demo_env ''default''
                (snd (downloadStarterAppAsync demo_env ''default'' demo_world)))) = 1"
proof -
  let ?file = "''/home/.exponent/starter-app-cache/default-1.0.0.tar.gz''"
  let ?dir = "''/home/.exponent/starter-app-cache''"
  let ?y1 = "ext warm_world\<lparr>present := [?dir, ?file]\<rparr>"
  have pw: "present (ext warm_world) = [?file]" and rw: "registry (ext warm_world) = registry demo_disk"
    and cw: "calls warm_world = []"
    by (simp_all add: warm_world_def)
  have hit: "registryVersion demo_env (ext warm_world) ''default'' = Inr (JStr ''1.0.0'') \<and>
    mkdirp demo_env (cacheDirPath demo_env (ext warm_world)) (ext warm_world) = (Inr (), ?y1) \<and>
    existsAsync demo_env ?y1 (path_join demo_env (cacheDirPath demo_env (ext warm_world))
       (starterAppFilename demo_env ''default'' (JStr ''1.0.0'')))"
    by (simp add: demo_registry[OF rw] demo_cache_names demo_mkdirp demo_exists pw)
  note partA = templateCache_at_most_once[THEN conjunct1, THEN mp, OF hit]
  let ?x1 = "demo_disk\<lparr>present := [?dir, ''/projects/app'']\<rparr>"
  let ?x2 = "demo_disk\<lparr>present := [?dir, ?dir, ''/projects/app'']\<rparr>"
  let ?x3 = "demo_disk\<lparr>present := [?file, ?dir, ?dir, ''/projects/app'']\<rparr>"
  let ?w1 = "\<lparr>ext = ?x3, calls = calls demo_world @ [Mkdirp ?dir, Mkdirp ?dir,
                 Download (starterAppUrl ''default-1.0.0.tar.gz'') ?dir]\<rparr>"
  have pd: "present demo_disk = [''/projects/app'']" and xd: "ext demo_world = demo_disk"
    and cd: "calls demo_world = []"
    by (simp_all add: demo_disk_def demo_world_def)
  have v: "registryVersion demo_env (ext demo_world) ''default'' = Inr (JStr ''1.0.0'')"
    by (simp add: demo_registry xd)
  have m: "mkdirp demo_env (cacheDirPath demo_env (ext demo_world)) (ext demo_world) = (Inr (), ?x1)"
    by (simp add: demo_cache_names demo_mkdirp xd pd)
  have first: "downloadStarterAppAsync demo_env ''default'' demo_world = (Inr ?file, ?w1)"
    using download_miss[of demo_env demo_world "''default''" "JStr ''1.0.0''" "()" ?x1 "()" ?x2 "Inr ()" ?x3]
    by (simp add: demo_registry xd demo_cache_names demo_mkdirp demo_exists pd demo_download_file)
  have second: "downloadStarterAppAsync demo_env ''default'' ?w1 =
                  (fst (downloadStarterAppAsync demo_env ''default'' ?w1),
                   snd (downloadStarterAppAsync demo_env ''default'' ?w1))"
    by simp
  have miss: "\<not> existsAsync demo_env ?x1 (path_join demo_env (cacheDirPath demo_env (ext demo_world))
       (starterAppFilename demo_env ''default'' (JStr ''1.0.0'')))"
    by (simp add: demo_cache_names demo_exists)
  from templateCache_at_most_once[THEN conjunct2, THEN mp, OF conjI[OF demo_cacheLaws conjI[OF v conjI[OF m conjI[OF first second]]]]]
  have "downloads (snd (downloadStarterAppAsync demo_env ''default'' ?w1)) = downloads ?w1 \<and>
        downloads ?w1 = downloads demo_world + 1"
    using miss by simp
  moreover have "downloads demo_world = 0"
    by (simp add: downloads_def cd)
  ultimately have counts: "downloads demo_world = 0 \<and> downloads ?w1 = 1 \<and>
      downloads (snd (downloadStarterAppAsync demo_env ''default'' ?w1)) = 1"
    by simp
  have a: "downloadStarterAppAsync demo_env ''default'' warm_world =
     (Inr ?file, \<lparr>ext = ?y1, calls = [Mkdirp ?dir]\<rparr>)"
    using partA by (simp add: cw demo_cache_names)
  from a counts show ?thesis
    by (simp only: first fst_conv snd_conv simp_thms)
qed

text \<open>
  The claim as stated, "two calls in sequence perform exactly one download", fails
  when the archive is already cached: both calls return the cached path and no download
  is performed.
\<close>

theorem templateCache_exactly_once_counterexample:
  "fst (downloadStarterAppAsync demo_env ''default'' warm_world) =
     Inr ''/home/.exponent/starter-app-cache/default-1.0.0.tar.gz'' \<and>
   fst (downloadStarterAppAsync demo_env ''default''
          (snd (downloadStarterAppAsync demo_env ''default'' warm_world))) =
     Inr ''/home/.exponent/starter-app-cache/default-1.0.0.tar.gz'' \<and>
   downloads warm_world = 0 \<and>
   downloads (snd (downloadStarterAppAsync demo_env ''default''
                (snd (downloadStarterAppAsync demo_env ''default'' warm_world)))) = 0"
proof -
  let ?file = "''/home/.exponent/starter-app-cache/default-1.0.0.tar.gz''"
  let ?dir = "''/home/.exponent/starter-app-cache''"
  let ?x1 = "ext warm_world\<lparr>present := [?dir, ?file]\<rparr>"
  let ?w1 = "\<lparr>ext = ?x1, calls = [Mkdirp ?dir]\<rparr>"
  let ?x2 = "ext warm_world\<lparr>present := [?dir, ?dir, ?file]\<rparr>"
  let ?w2 = "\<lparr>ext = ?x2, calls = [Mkdirp ?dir, Mkdirp ?dir]\<rparr>"
  have p0: "present (ext warm_world) = [?file]" and r0: "registry (ext warm_world) = registry demo_disk"
    and c0: "calls warm_world = []"
    by (simp_all add: warm_world_def)
  have first: "downloadStarterAppAsync demo_env ''default'' warm_world = (Inr ?file, ?w1)"
    using download_hit[of demo_env warm_world "''default''" "JStr ''1.0.0''" "()" ?x1]
    by (simp add: demo_registry[OF r0] demo_cache_names demo_mkdirp demo_exists p0 c0)
  have second: "downloadStarterAppAsync demo_env ''default'' ?w1 = (Inr ?file, ?w2)"
    using download_hit[of demo_env ?w1 "''default''" "JStr ''1.0.0''" "()" ?x2]
    by (simp add: demo_registry r0 demo_cache_names demo_mkdirp demo_exists p0)
  have "downloads warm_world = 0" and "downloads ?w2 = 0"
    by (simp_all add: downloads_def c0)
  then show ?thesis
    by (simp only: first second fst_conv snd_conv simp_thms)
qed

section \<open>Properties of the recency list\<close>

lemma recordUse_list_length: "length (recordUse_list root old) \<le> 100"
  by (simp add: recordUse_list_def)

lemma recordUse_list_head: "recordUse_list root old ! 0 = JStr root"
  by (simp add: recordUse_list_def)

lemma recordUse_list_distinct:
  assumes "distinct old"
  shows "distinct (recordUse_list root old)"
proof -
  from assms have "distinct (JStr root # filter (\<lambda>x. x \<noteq> JStr root) old)"
    by simp
  then show ?thesis
    unfolding recordUse_list_def by (rule distinct_take)
qed

lemma save_eq:
  assumes "readAsync env (ext w) (recentExpsJsonFile env (ext w)) (Some (JArr [])) = Inr (JArr old)"
  shows "saveRecentExpRootAsync env root w =
           callIO (JsonWrite (filePath (recentExpsJsonFile env (ext w)))
                     (JArr (recordUse_list (path_resolve env root) old)))
             (jsonWrite env (recentExpsJsonFile env (ext w))
                (JArr (recordUse_list (path_resolve env root) old))) w"
  using assms
  by (simp add: saveRecentExpRootAsync_def Let_def bindIO_def readIO_def liftE_def withoutRoot_def
      recordUse_list_def)

lemma read_parsed: "jsonRead env x jf = Parsed v \<Longrightarrow> readAsync env x jf d = Inr v"
  by (simp add: readAsync_def)

lemma save_persisted:
  assumes laws: "recentLaws env (recentExpsJsonFile env (ext w))"
      and old: "readAsync env (ext w) (recentExpsJsonFile env (ext w)) (Some (JArr [])) = Inr (JArr old)"
      and run: "saveRecentExpRootAsync env root w = (Inr r, w')"
  shows "recentExpsJsonFile env (ext w') = recentExpsJsonFile env (ext w)"
    and "readAsync env (ext w') (recentExpsJsonFile env (ext w')) (Some (JArr [])) =
           Inr (JArr (recordUse_list (path_resolve env root) old))"
proof -
  let ?jf = "recentExpsJsonFile env (ext w)"
  let ?v = "JArr (recordUse_list (path_resolve env root) old)"
  obtain rw x' where wr: "jsonWrite env ?jf ?v (ext w) = (rw, x')"
    by (cases "jsonWrite env ?jf ?v (ext w)")
  from run save_eq[OF old, of root] wr have "rw = Inr r" and "ext w' = x'"
    by (auto simp: callIO_def)
  with wr laws have k: "jsonRead env (ext w') ?jf = Parsed ?v \<and> recentExpsJsonFile env (ext w') = ?jf"
    unfolding recentLaws_def by blast
  from k show "recentExpsJsonFile env (ext w') = ?jf" by simp
  with k show "readAsync env (ext w') (recentExpsJsonFile env (ext w')) (Some (JArr [])) = Inr ?v"
    by (simp add: read_parsed)
qed

lemma recordAll_persisted:
  assumes "recentLaws env (recentExpsJsonFile env (ext w))"
      and "readAsync env (ext w) (recentExpsJsonFile env (ext w)) (Some (JArr [])) = Inr (JArr old)"
      and "recordAll env ps w = (Inr u, w')"
  shows "readAsync env (ext w') (recentExpsJsonFile env (ext w')) (Some (JArr [])) =
           Inr (JArr (foldl (\<lambda>xs p. recordUse_list (path_resolve env p) xs) old ps))"
  using assms
proof (induction ps arbitrary: w old)
  case Nil
  then show ?case by (simp add: returnIO_def)
next
  case (Cons p ps)
  obtain r1 w1 where s: "saveRecentExpRootAsync env p w = (r1, w1)"
    by (cases "saveRecentExpRootAsync env p w")
  with Cons.prems(3) obtain r where r: "r1 = Inr r" and rest: "recordAll env ps w1 = (Inr u, w')"
    by (cases r1) (auto simp: bindIO_def)
  note one = save_persisted[OF Cons.prems(1,2) s[unfolded r]]
  from Cons.prems(1) one(1) have laws1: "recentLaws env (recentExpsJsonFile env (ext w1))"
    by simp
  from Cons.IH[OF laws1 one(2) rest] show ?case
    by simp
qed

lemma take_cons_take:
  "take 100 (a # take 100 xs @ ys) = take 100 (a # xs @ ys)"
  by (cases "length xs < 100") (simp_all add: take_Cons')

lemma recordUse_list_fresh:
  assumes "JStr r \<notin> set xs"
  shows "\<exists>rest'. recordUse_list r (take 100 (xs @ rest)) = take 100 (JStr r # xs @ rest')"
proof -
  have "filter (\<lambda>x. x \<noteq> JStr r) (take 100 (xs @ rest)) =
          take 100 xs @ filter (\<lambda>x. x \<noteq> JStr r) (take (100 - length xs) rest)"
    using assms by (auto simp: filter_id_conv dest: in_set_takeD)
  then have "recordUse_list r (take 100 (xs @ rest)) =
          take 100 (JStr r # xs @ filter (\<lambda>x. x \<noteq> JStr r) (take (100 - length xs) rest))"
    by (simp only: recordUse_list_def take_cons_take)
  then show ?thesis by blast
qed

lemma foldl_recordUse_distinct:
  assumes "distinct rs"
  shows "\<exists>rest. foldl (\<lambda>xs r. recordUse_list r xs) old rs = take 100 (rev (map JStr rs) @ rest)
          \<or> (rs = [] \<and> foldl (\<lambda>xs r. recordUse_list r xs) old rs = old)"
  using assms
proof (induction rs rule: rev_induct)
  case Nil
  then show ?case by simp
next
  case (snoc r rs)
  then have d: "distinct rs" and fresh: "JStr r \<notin> set (rev (map JStr rs))"
    by auto
  show ?case
  proof (cases "rs = []")
    case True
    then show ?thesis
      by (auto simp: recordUse_list_def intro: exI[of _ "filter (\<lambda>x. x \<noteq> JStr r) old"])
  next
    case False
    with snoc.IH[OF d] obtain rest where
      "foldl (\<lambda>xs r. recordUse_list r xs) old rs = take 100 (rev (map JStr rs) @ rest)"
      by auto
    with recordUse_list_fresh[OF fresh, of rest] show ?thesis
      by auto
  qed
qed

lemma foldl_recordUse_full:
  assumes "distinct rs" and "100 \<le> length rs"
  shows "foldl (\<lambda>xs r. recordUse_list r xs) old rs = take 100 (rev (map JStr rs))"
proof -
  from assms(2) have "rs \<noteq> []" by auto
  with foldl_recordUse_distinct[OF assms(1), of old] obtain rest where
    "foldl (\<lambda>xs r. recordUse_list r xs) old rs = take 100 (rev (map JStr rs) @ rest)"
    by auto
  with assms(2) show ?thesis by simp
qed

lemma foldl_map_resolve:
  "foldl (\<lambda>xs p. recordUse_list (f p) xs) old ps = foldl (\<lambda>xs r. recordUse_list r xs) old (map f ps)"
  by (induction ps arbitrary: old) simp_all

lemma demo_recentLaws: "recentLaws demo_env (recentExpsJsonFile demo_env x)"
  by (simp add: recentLaws_def demo_env_def demo_jsonRead_def)

lemma demo_recent_missing:
  "readAsync demo_env (ext demo_world) (recentExpsJsonFile demo_env (ext demo_world)) (Some (JArr [])) =
     Inr (JArr [])"
  by (simp add: readAsync_def demo_env_def demo_jsonRead_def demo_world_def demo_disk_def)

lemma demo_save_returns:
  assumes "readAsync demo_env (ext w) (recentExpsJsonFile demo_env (ext w)) (Some (JArr [])) = Inr (JArr old)"
  shows "\<exists>r w'. saveRecentExpRootAsync demo_env p w = (Inr r, w')"
proof -
  have "jsonWrite demo_env jf v x = (Inr v, x\<lparr>jsonFiles := (filePath jf, v) # jsonFiles x\<rparr>)"
    for jf v x
    by (simp add: demo_env_def)
  then show ?thesis
    by (simp add: save_eq[OF assms] callIO_def)
qed

lemma demo_recordAll_returns:
  assumes "readAsync demo_env (ext w) (recentExpsJsonFile demo_env (ext w)) (Some (JArr [])) = Inr (JArr old)"
  shows "fst (recordAll demo_env ps w) = Inr ()"
  using assms
proof (induction ps arbitrary: w old)
  case Nil
  then show ?case by (simp add: returnIO_def)
next
  case (Cons p ps)
  from demo_save_returns[OF Cons.prems] obtain r w1 where
    s: "saveRecentExpRootAsync demo_env p w = (Inr r, w1)"
    by blast
  from save_persisted(2)[OF demo_recentLaws Cons.prems s] Cons.IH[of w1] s show ?case
    by (simp add: bindIO_def)
qed

lemma paths105_length: "length paths105 = 105"
  by (simp only: paths105_def length_map length_upt diff_zero)

lemma paths105_distinct: "distinct paths105"
proof -
  have "inj (\<lambda>n. ''/p'' @ replicate n (CHR ''x''))"
    by (rule injI) simp
  then have "inj_on (\<lambda>n. ''/p'' @ replicate n (CHR ''x'')) (set [0..<105])"
    by (rule inj_on_subset) (rule subset_UNIV)
  then show ?thesis
    by (simp only: paths105_def distinct_map distinct_upt simp_thms)
qed

text \<open>
  Claim C5. Let \<open>old\<close> be the list read from the store (the empty list when the file
  cannot be read), and let the store satisfy \<open>recentLaws\<close>. What
  \<^verbatim>\<open>saveRecentExpRootAsync\<close> hands to \<^verbatim>\<open>writeAsync\<close> is \<open>old\<close> with every occurrence of the
  canonical path removed, the path put in front, cut to the first 100 entries: it has at
  most 100 entries, the canonical path at index 0, and no duplicates when \<open>old\<close> had none
  (so none from an empty store on). After a call that returns, that list is what the
  store holds. After 105 calls in sequence with 105 distinct canonical paths the store
  holds exactly 100 entries, the last 100 paths used, most recent first.
\<close>

theorem recencyList_recordUse:
  assumes laws: "recentLaws env (recentExpsJsonFile env (ext w))"
      and old: "readAsync env (ext w) (recentExpsJsonFile env (ext w)) (Some (JArr [])) = Inr (JArr old)"
  shows "saveRecentExpRootAsync env root w =
           callIO (JsonWrite (filePath (recentExpsJsonFile env (ext w)))
                     (JArr (recordUse_list (path_resolve env root) old)))
             (jsonWrite env (recentExpsJsonFile env (ext w))
                (JArr (recordUse_list (path_resolve env root) old))) w \<and>
         length (recordUse_list (path_resolve env root) old) \<le> 100 \<and>
         recordUse_list (path_resolve env root) old ! 0 = JStr (path_resolve env root) \<and>
         (distinct old \<longrightarrow> distinct (recordUse_list (path_resolve env root) old)) \<and>
         (saveRecentExpRootAsync env root w = (Inr r, w') \<longrightarrow>
            readAsync env (ext w') (recentExpsJsonFile env (ext w')) (Some (JArr [])) =
              Inr (JArr (recordUse_list (path_resolve env root) old))) \<and>
         (recordAll env ps w = (Inr u, w'') \<and> distinct (map (path_resolve env) ps) \<and>
          length ps = 105 \<longrightarrow>
            readAsync env (ext w'') (recentExpsJsonFile env (ext w'')) (Some (JArr [])) =
              Inr (JArr (take 100 (rev (map (\<lambda>p. JStr (path_resolve env p)) ps)))) \<and>
            length (take 100 (rev (map (\<lambda>p. JStr (path_resolve env p)) ps))) = 100 \<and>
            distinct (take 100 (rev (map (\<lambda>p. JStr (path_resolve env p)) ps))))"
proof (intro conjI impI)
  show "saveRecentExpRootAsync env root w =
           callIO (JsonWrite (filePath (recentExpsJsonFile env (ext w)))
                     (JArr (recordUse_list (path_resolve env root) old)))
             (jsonWrite env (recentExpsJsonFile env (ext w))
                (JArr (recordUse_list (path_resolve env root) old))) w"
    by (rule save_eq[OF old])
  show "length (recordUse_list (path_resolve env root) old) \<le> 100"
    by (rule recordUse_list_length)
  show "recordUse_list (path_resolve env root) old ! 0 = JStr (path_resolve env root)"
    by (rule recordUse_list_head)
  show "distinct (recordUse_list (path_resolve env root) old)" if "distinct old"
    using that by (rule recordUse_list_distinct)
  show "readAsync env (ext w') (recentExpsJsonFile env (ext w')) (Some (JArr [])) =
              Inr (JArr (recordUse_list (path_resolve env root) old))"
    if "saveRecentExpRootAsync env root w = (Inr r, w')"
    using save_persisted(2)[OF laws old that] .
next
  assume a: "recordAll env ps w = (Inr u, w'') \<and> distinct (map (path_resolve env) ps) \<and>
          length ps = 105"
  let ?rs = "map (path_resolve env) ps"
  from a have run: "recordAll env ps w = (Inr u, w'')"
    by (rule conjunct1)
  from a have d: "distinct ?rs"
    by (rule conjunct2[THEN conjunct1])
  from a have len: "length ps = 105"
    by (rule conjunct2[THEN conjunct2])
  have n: "100 \<le> length ?rs"
    by (simp only: length_map len)
  have m: "map JStr ?rs = map (\<lambda>p. JStr (path_resolve env p)) ps"
    by simp
  from recordAll_persisted[OF laws old run]
  have "readAsync env (ext w'') (recentExpsJsonFile env (ext w'')) (Some (JArr [])) =
          Inr (JArr (foldl (\<lambda>xs r. recordUse_list r xs) old ?rs))"
    by (simp only: foldl_map_resolve[of "path_resolve env" old ps])
  then show "readAsync env (ext w'') (recentExpsJsonFile env (ext w'')) (Some (JArr [])) =
              Inr (JArr (take 100 (rev (map (\<lambda>p. JStr (path_resolve env p)) ps))))"
    by (simp only: foldl_recordUse_full[OF d n] m)
  show "length (take 100 (rev (map (\<lambda>p. JStr (path_resolve env p)) ps))) = 100"
    by (simp only: length_take length_rev length_map len) 
  from d have "distinct (map JStr ?rs)"
    by (simp add: distinct_map inj_on_def)
  then have "distinct (rev (map (\<lambda>p. JStr (path_resolve env p)) ps))"
    by (simp only: m distinct_rev)
  then show "distinct (take 100 (rev (map (\<lambda>p. JStr (path_resolve env p)) ps)))"
    by (rule distinct_take)
qed

theorem recencyList_recordUse_witness:
  "readAsync demo_env (ext (snd (saveRecentExpRootAsync demo_env ''/app'' demo_world)))
     (recentExpsJsonFile demo_env (ext (snd (saveRecentExpRootAsync demo_env ''/app'' demo_world))))
     (Some (JArr [])) = Inr (JArr [JStr ''/app'']) \<and>
   readAsync demo_env (ext (snd (recordAll demo_env paths105 demo_world)))
     (recentExpsJsonFile demo_env (ext (snd (recordAll demo_env paths105 demo_world))))
     (Some (JArr [])) = Inr (JArr (take 100 (rev (map JStr paths105)))) \<and>
   length (take 100 (rev (map JStr paths105))) = 100"
proof -
  from demo_save_returns[OF demo_recent_missing, of "''/app''"] obtain r w' where
    one: "saveRecentExpRootAsync demo_env ''/app'' demo_world = (Inr r, w')"
    by blast
  obtain w'' where run: "recordAll demo_env paths105 demo_world = (Inr (), w'')"
    using demo_recordAll_returns[OF demo_recent_missing, of paths105]
    by (cases "recordAll demo_env paths105 demo_world") simp
  have res: "path_resolve demo_env root = root" for root
    by (simp add: demo_env_def)
  have res': "path_resolve demo_env = (\<lambda>p. p)"
    by (simp add: demo_env_def)
  have dist: "distinct (map (path_resolve demo_env) paths105)"
    using paths105_distinct by (simp only: res' list.map_ident)
  note t = recencyList_recordUse[OF demo_recentLaws demo_recent_missing,
      of "''/app''" r w' paths105 "()" w'']
  have single: "recordUse_list ''/app'' [] = [JStr ''/app'']"
    by (simp add: recordUse_list_def)
  from t one have a: "readAsync demo_env (ext w') (recentExpsJsonFile demo_env (ext w')) (Some (JArr [])) =
      Inr (JArr [JStr ''/app''])"
    by (simp only: res single simp_thms)
  from t run dist paths105_length
  have b: "readAsync demo_env (ext w'') (recentExpsJsonFile demo_env (ext w'')) (Some (JArr [])) =
      Inr (JArr (take 100 (rev (map JStr paths105)))) \<and>
      length (take 100 (rev (map JStr paths105))) = 100"
    by (simp only: res simp_thms)
  from a b show ?thesis
    by (simp only: one run snd_conv simp_thms)
qed

section \<open>Properties of the generated identifiers\<close>

lemma loggedOut_persisted:
  assumes "userSettingsGetAsync env (ext w) ''loggedOutPlaceholderUsername'' JNull = Inr v"
      and "truthy v"
  shows "getLoggedOutPlaceholderUsernameAsync env w = (Inr v, w)"
  using assms
  by (simp add: getLoggedOutPlaceholderUsernameAsync_def bindIO_def readIO_def returnIO_def)

lemma loggedOut_fresh:
  assumes "userSettingsGetAsync env (ext w) ''loggedOutPlaceholderUsername'' JNull = Inr v"
      and "\<not> truthy v"
      and "randomIdentifierForLoggedOutUser env (ext w) = (fresh, x1)"
      and "userSettingsSetAsync env ''loggedOutPlaceholderUsername'' fresh x1 = (r, x2)"
  shows "getLoggedOutPlaceholderUsernameAsync env w =
           (case r of Inl e \<Rightarrow> Inl e | Inr u \<Rightarrow> Inr fresh,
            \<lparr>ext = x2,
             calls = calls w @ [RandomIdentifier, UserSettingsSet ''loggedOutPlaceholderUsername'' fresh]\<rparr>)"
  using assms
  by (simp add: getLoggedOutPlaceholderUsernameAsync_def bindIO_def readIO_def returnIO_def
      genIO_def callIO_def split: sum.splits)

lemma projectRandomness_persisted:
  assumes "projectSettingsReadAsync env (ext w) projectRoot = Inr ps"
      and "getProp ps ''urlRandomness'' = Inr v" and "truthy v"
  shows "getProjectRandomnessAsync env projectRoot w = (Inr v, w, [])"
  using assms by (simp add: getProjectRandomnessAsync_def)

lemma projectRandomness_fresh:
  assumes "projectSettingsReadAsync env (ext w) projectRoot = Inr ps"
      and "getProp ps ''urlRandomness'' = Inr v" and "\<not> truthy v"
      and "someRandomness env (ext w) = (fresh, x1)"
  shows "getProjectRandomnessAsync env projectRoot w =
           (Inr fresh, \<lparr>ext = x1, calls = calls w @ [SomeRandomness]\<rparr>,
            [urlRandomnessWrite env projectRoot fresh])"
  using assms by (simp add: getProjectRandomnessAsync_def genIO_def callIO_def)

lemma identifierLaws_user:
  assumes "identifierLaws env projectRoot"
      and "userSettingsSetAsync env ''loggedOutPlaceholderUsername'' v x = (Inr (), x')"
  shows "userSettingsGetAsync env x' ''loggedOutPlaceholderUsername'' JNull = Inr v"
  using assms unfolding identifierLaws_def by blast

lemma identifierLaws_truthy:
  assumes "identifierLaws env projectRoot"
  shows "truthy (fst (randomIdentifierForLoggedOutUser env x))"
    and "truthy (fst (someRandomness env x))"
  using assms unfolding identifierLaws_def by blast+

lemma identifierLaws_project:
  assumes "identifierLaws env projectRoot"
      and "projectSettingsSetAsync env projectRoot (JObj [(''urlRandomness'', v)]) x = (Inr (), x')"
  shows "\<exists>ps. projectSettingsReadAsync env x' projectRoot = Inr ps \<and>
              getProp ps ''urlRandomness'' = Inr v"
  using assms unfolding identifierLaws_def by blast

lemma loggedOut_twice:
  assumes laws: "identifierLaws env projectRoot"
      and v0: "userSettingsGetAsync env (ext w) ''loggedOutPlaceholderUsername'' JNull = Inr v0"
      and first: "getLoggedOutPlaceholderUsernameAsync env w = (Inr v1, w1)"
      and second: "getLoggedOutPlaceholderUsernameAsync env w1 = (r2, w2)"
  shows "r2 = Inr v1 \<and> w2 = w1 \<and>
         generated RandomIdentifier w2 =
           generated RandomIdentifier w + (if truthy v0 then 0 else 1)"
proof (cases "truthy v0")
  case True
  from loggedOut_persisted[OF v0 True] first have "v1 = v0" and "w1 = w"
    by simp_all
  with loggedOut_persisted[OF v0 True] second True show ?thesis
    by simp
next
  case False
  obtain fresh x1 where g: "randomIdentifierForLoggedOutUser env (ext w) = (fresh, x1)"
    by (cases "randomIdentifierForLoggedOutUser env (ext w)")
  obtain r x2 where s: "userSettingsSetAsync env ''loggedOutPlaceholderUsername'' fresh x1 = (r, x2)"
    by (cases "userSettingsSetAsync env ''loggedOutPlaceholderUsername'' fresh x1")
  from loggedOut_fresh[OF v0 False g s] first
  have r: "r = Inr ()" and v1: "v1 = fresh"
    and w1: "w1 = \<lparr>ext = x2,
               calls = calls w @ [RandomIdentifier, UserSettingsSet ''loggedOutPlaceholderUsername'' fresh]\<rparr>"
    by (cases r; simp)+
  from identifierLaws_user[OF laws s[unfolded r]]
  have stored: "userSettingsGetAsync env (ext w1) ''loggedOutPlaceholderUsername'' JNull = Inr fresh"
    by (simp add: w1)
  from identifierLaws_truthy(1)[OF laws, of "ext w"] g have t: "truthy fresh"
    by simp
  from loggedOut_persisted[OF stored t] second have "r2 = Inr fresh" and "w2 = w1"
    by simp_all
  moreover have "generated RandomIdentifier w1 = generated RandomIdentifier w + 1"
    by (simp add: w1 generated_def)
  ultimately show ?thesis
    using False v1 by simp
qed

lemma demo_identifierLaws: "identifierLaws demo_env projectRoot"
  by (simp add: identifierLaws_def demo_env_def demo_generate_def demo_projectSet_def)

lemma demo_generate_at:
  "seed x = n \<Longrightarrow> someRandomness demo_env x = (JStr (replicate (Suc n) (CHR ''r'')), x\<lparr>seed := Suc n\<rparr>)"
  "seed x = n \<Longrightarrow> randomIdentifierForLoggedOutUser demo_env x =
     (JStr (replicate (Suc n) (CHR ''r'')), x\<lparr>seed := Suc n\<rparr>)"
  by (simp_all add: demo_env_def demo_generate_def)

lemma demo_user_get:
  "userSettingsGetAsync demo_env x k d = Inr (case map_of (userStore x) k of Some v \<Rightarrow> v | None \<Rightarrow> d)"
  by (simp add: demo_env_def)

lemma demo_user_set:
  "userSettingsSetAsync demo_env k v x = (Inr (), x\<lparr>userStore := (k, v) # userStore x\<rparr>)"
  by (simp add: demo_env_def)

lemma demo_project_read: "projectSettingsReadAsync demo_env x root = Inr (JObj (projectStore x))"
  by (simp add: demo_env_def)

lemma demo_project_set:
  "projectSettingsSetAsync demo_env root (JObj kvs) x = (Inr (), x\<lparr>projectStore := kvs @ projectStore x\<rparr>)"
  by (simp add: demo_env_def demo_projectSet_def)

lemma readonly_project:
  "projectSettingsReadAsync readonly_project_env x root = Inr (JObj (projectStore x))"
  "projectSettingsSetAsync readonly_project_env root v x = (Inl (Error ''EACCES''), x)"
  "seed x = n \<Longrightarrow> someRandomness readonly_project_env x =
     (JStr (replicate (Suc n) (CHR ''r'')), x\<lparr>seed := Suc n\<rparr>)"
  by (simp_all add: readonly_project_env_def demo_env_def demo_generate_def)

lemma demo_world_fields:
  "userStore (ext demo_world) = []" "projectStore (ext demo_world) = []"
  "seed (ext demo_world) = 0" "calls demo_world = []"
  by (simp_all add: demo_world_def demo_disk_def)

lemma named_world_fields:
  "userStore (ext named_world) = [(''loggedOutPlaceholderUsername'', JStr ''anonymous-7'')]"
  "projectStore (ext named_world) = [(''urlRandomness'', JStr ''ab-cde'')]"
  "calls named_world = []"
  by (simp_all add: named_world_def)

text \<open>
  The slip of line 325. The first call returns \<^verbatim>\<open>"r"\<close> with its write in flight; a second
  call that starts before the write has landed finds no value, invokes the generator
  again and returns \<^verbatim>\<open>"rr"\<close>.
\<close>

lemma projectRandomness_write_in_flight:
  "getProjectRandomnessAsync demo_env ''/app'' demo_world =
     (Inr (JStr ''r''), \<lparr>ext = ext demo_world\<lparr>seed := 1\<rparr>, calls = [SomeRandomness]\<rparr>,
      [urlRandomnessWrite demo_env ''/app'' (JStr ''r'')]) \<and>
   getProjectRandomnessAsync demo_env ''/app''
       \<lparr>ext = ext demo_world\<lparr>seed := 1\<rparr>, calls = [SomeRandomness]\<rparr> =
     (Inr (JStr ''rr''),
      \<lparr>ext = ext demo_world\<lparr>seed := 2\<rparr>, calls = [SomeRandomness, SomeRandomness]\<rparr>,
      [urlRandomnessWrite demo_env ''/app'' (JStr ''rr'')]) \<and>
   generated SomeRandomness
     \<lparr>ext = ext demo_world\<lparr>seed := 2\<rparr>, calls = [SomeRandomness, SomeRandomness]\<rparr> = 2"
proof -
  let ?w1 = "\<lparr>ext = ext demo_world\<lparr>seed := 1\<rparr>, calls = [SomeRandomness]\<rparr>"
  have "getProjectRandomnessAsync demo_env ''/app'' demo_world =
     (Inr (JStr ''r''), ?w1, [urlRandomnessWrite demo_env ''/app'' (JStr ''r'')])"
    using projectRandomness_fresh[of demo_env demo_world "''/app''" "JObj []" JUndefined
        "JStr ''r''" "ext demo_world\<lparr>seed := 1\<rparr>"]
    by (simp add: demo_project_read demo_world_fields demo_generate_at)
  moreover have "getProjectRandomnessAsync demo_env ''/app'' ?w1 =
     (Inr (JStr ''rr''),
      \<lparr>ext = ext demo_world\<lparr>seed := 2\<rparr>, calls = [SomeRandomness, SomeRandomness]\<rparr>,
      [urlRandomnessWrite demo_env ''/app'' (JStr ''rr'')])"
    using projectRandomness_fresh[of demo_env ?w1 "''/app''" "JObj []" JUndefined
        "JStr ''rr''" "ext demo_world\<lparr>seed := 2\<rparr>"]
    by (simp add: demo_project_read demo_world_fields demo_generate_at)
  moreover have "generated SomeRandomness
     \<lparr>ext = ext demo_world\<lparr>seed := 2\<rparr>, calls = [SomeRandomness, SomeRandomness]\<rparr> = 2"
    by (simp add: generated_def)
  ultimately show ?thesis by (simp only: simp_thms)
qed

text \<open>
  The same slip when the write fails: the first call still returns \<^verbatim>\<open>"r"\<close>, the failure
  of the write reaches nobody, and the next call, after the write has settled, returns
  \<^verbatim>\<open>"rr"\<close>.
\<close>

lemma projectRandomness_write_failure_dropped:
  "getProjectRandomnessAsync readonly_project_env ''/app'' demo_world =
     (Inr (JStr ''r''), \<lparr>ext = ext demo_world\<lparr>seed := 1\<rparr>, calls = [SomeRandomness]\<rparr>,
      [urlRandomnessWrite readonly_project_env ''/app'' (JStr ''r'')]) \<and>
   fst (urlRandomnessWrite readonly_project_env ''/app'' (JStr ''r'')
          \<lparr>ext = ext demo_world\<lparr>seed := 1\<rparr>, calls = [SomeRandomness]\<rparr>) = Inl (Error ''EACCES'') \<and>
   fst (getProjectRandomnessAsync readonly_project_env ''/app''
          (settle (urlRandomnessWrite readonly_project_env ''/app'' (JStr ''r''))
             \<lparr>ext = ext demo_world\<lparr>seed := 1\<rparr>, calls = [SomeRandomness]\<rparr>)) = Inr (JStr ''rr'')"
proof -
  let ?w1 = "\<lparr>ext = ext demo_world\<lparr>seed := 1\<rparr>, calls = [SomeRandomness]\<rparr>"
  let ?set = "ProjectSettingsSet ''/app'' (JObj [(''urlRandomness'', JStr ''r'')])"
  let ?w2 = "\<lparr>ext = ext demo_world\<lparr>seed := 1\<rparr>, calls = [SomeRandomness, ?set]\<rparr>"
  have a: "getProjectRandomnessAsync readonly_project_env ''/app'' demo_world =
     (Inr (JStr ''r''), ?w1, [urlRandomnessWrite readonly_project_env ''/app'' (JStr ''r'')])"
    using projectRandomness_fresh[of readonly_project_env demo_world "''/app''" "JObj []" JUndefined
        "JStr ''r''" "ext demo_world\<lparr>seed := 1\<rparr>"]
    by (simp add: readonly_project demo_world_fields)
  have b: "urlRandomnessWrite readonly_project_env ''/app'' (JStr ''r'') ?w1 =
             (Inl (Error ''EACCES''), ?w2)"
    by (simp add: urlRandomnessWrite_def callIO_def readonly_project)
  have c: "getProjectRandomnessAsync readonly_project_env ''/app'' ?w2 =
     (Inr (JStr ''rr''),
      \<lparr>ext = ext demo_world\<lparr>seed := 2\<rparr>, calls = [SomeRandomness, ?set, SomeRandomness]\<rparr>,
      [urlRandomnessWrite readonly_project_env ''/app'' (JStr ''rr'')])"
    using projectRandomness_fresh[of readonly_project_env ?w2 "''/app''" "JObj []" JUndefined
        "JStr ''rr''" "ext demo_world\<lparr>seed := 2\<rparr>"]
    by (simp add: readonly_project demo_world_fields)
  show ?thesis
    by (simp only: a b c settle_def fst_conv snd_conv simp_thms)
qed

text \<open>
  Claim C6, as amended. With collaborators that satisfy \<open>identifierLaws\<close>:
  once a truthy value is stored for the key, \<^verbatim>\<open>getLoggedOutPlaceholderUsernameAsync\<close> and
  \<^verbatim>\<open>getProjectRandomnessAsync\<close> return it, leave the world as it is and invoke no generator.
  Two calls of \<^verbatim>\<open>getLoggedOutPlaceholderUsernameAsync\<close> in sequence, the first of which
  returns, return the same value, and the generator is invoked once in total when no
  value was stored before and never when one was. A call of \<^verbatim>\<open>getProjectRandomnessAsync\<close>
  that finds no value invokes the generator exactly once and returns the fresh value;
  once its write has completed successfully, a later call returns the same value without
  invoking the generator.
\<close>

theorem derivedIdentifier_getOrCreate:
  assumes laws: "identifierLaws env projectRoot"
  shows "(userSettingsGetAsync env (ext w) ''loggedOutPlaceholderUsername'' JNull = Inr v \<and> truthy v
            \<longrightarrow> getLoggedOutPlaceholderUsernameAsync env w = (Inr v, w)) \<and>
         (projectSettingsReadAsync env (ext w) projectRoot = Inr ps \<and>
          getProp ps ''urlRandomness'' = Inr v \<and> truthy v
            \<longrightarrow> getProjectRandomnessAsync env projectRoot w = (Inr v, w, [])) \<and>
         (userSettingsGetAsync env (ext w) ''loggedOutPlaceholderUsername'' JNull = Inr v0 \<and>
          getLoggedOutPlaceholderUsernameAsync env w = (Inr v1, w1) \<and>
          getLoggedOutPlaceholderUsernameAsync env w1 = (r2, w2)
            \<longrightarrow> r2 = Inr v1 \<and> w2 = w1 \<and>
                generated RandomIdentifier w2 =
                  generated RandomIdentifier w + (if truthy v0 then 0 else 1)) \<and>
         (projectSettingsReadAsync env (ext w) projectRoot = Inr ps \<and>
          getProp ps ''urlRandomness'' = Inr v0 \<and> \<not> truthy v0 \<and>
          getProjectRandomnessAsync env projectRoot w = (r1, u1, pending)
            \<longrightarrow> r1 = Inr (fst (someRandomness env (ext w))) \<and>
                generated SomeRandomness u1 = generated SomeRandomness w + 1) \<and>
         (projectSettingsReadAsync env (ext w) projectRoot = Inr ps \<and>
          getProp ps ''urlRandomness'' = Inr v0 \<and> \<not> truthy v0 \<and>
          getProjectRandomnessAsync env projectRoot w = (r1, u1, [p]) \<and>
          p u1 = (Inr (), u2) \<and>
          getProjectRandomnessAsync env projectRoot u2 = (r3, u3, pending')
            \<longrightarrow> r3 = r1 \<and> u3 = u2 \<and> pending' = [] \<and>
                generated SomeRandomness u3 = generated SomeRandomness w + 1)"
proof (intro conjI impI)
  assume "userSettingsGetAsync env (ext w) ''loggedOutPlaceholderUsername'' JNull = Inr v \<and> truthy v"
  then show "getLoggedOutPlaceholderUsernameAsync env w = (Inr v, w)"
    by (simp add: loggedOut_persisted)
next
  assume "projectSettingsReadAsync env (ext w) projectRoot = Inr ps \<and>
          getProp ps ''urlRandomness'' = Inr v \<and> truthy v"
  then show "getProjectRandomnessAsync env projectRoot w = (Inr v, w, [])"
    by (simp add: projectRandomness_persisted)
next
  assume a: "userSettingsGetAsync env (ext w) ''loggedOutPlaceholderUsername'' JNull = Inr v0 \<and>
          getLoggedOutPlaceholderUsernameAsync env w = (Inr v1, w1) \<and>
          getLoggedOutPlaceholderUsernameAsync env w1 = (r2, w2)"
  from a have a1: "userSettingsGetAsync env (ext w) ''loggedOutPlaceholderUsername'' JNull = Inr v0"
    by (rule conjunct1)
  from a have a2: "getLoggedOutPlaceholderUsernameAsync env w = (Inr v1, w1)"
    by (rule conjunct2[THEN conjunct1])
  from a have a3: "getLoggedOutPlaceholderUsernameAsync env w1 = (r2, w2)"
    by (rule conjunct2[THEN conjunct2])
  note k = loggedOut_twice[OF laws a1 a2 a3]
  from k show "r2 = Inr v1" by (rule conjunct1)
  from k show "w2 = w1" by (rule conjunct2[THEN conjunct1])
  from k show "generated RandomIdentifier w2 =
                  generated RandomIdentifier w + (if truthy v0 then 0 else 1)"
    by (rule conjunct2[THEN conjunct2])
next
  assume a: "projectSettingsReadAsync env (ext w) projectRoot = Inr ps \<and>
          getProp ps ''urlRandomness'' = Inr v0 \<and> \<not> truthy v0 \<and>
          getProjectRandomnessAsync env projectRoot w = (r1, u1, pending)"
  obtain fresh x1 where g: "someRandomness env (ext w) = (fresh, x1)"
    by (cases "someRandomness env (ext w)")
  from a projectRandomness_fresh[OF _ _ _ g, of projectRoot ps v0]
  have e: "r1 = Inr fresh \<and> u1 = \<lparr>ext = x1, calls = calls w @ [SomeRandomness]\<rparr> \<and>
           pending = [urlRandomnessWrite env projectRoot fresh]"
    by simp
  from e g show "r1 = Inr (fst (someRandomness env (ext w)))" by simp
  from e show "generated SomeRandomness u1 = generated SomeRandomness w + 1"
    by (simp add: generated_def)
next
  assume a: "projectSettingsReadAsync env (ext w) projectRoot = Inr ps \<and>
          getProp ps ''urlRandomness'' = Inr v0 \<and> \<not> truthy v0 \<and>
          getProjectRandomnessAsync env projectRoot w = (r1, u1, [p]) \<and>
          p u1 = (Inr (), u2) \<and>
          getProjectRandomnessAsync env projectRoot u2 = (r3, u3, pending')"
  obtain fresh x1 where g: "someRandomness env (ext w) = (fresh, x1)"
    by (cases "someRandomness env (ext w)")
  from a projectRandomness_fresh[OF _ _ _ g, of projectRoot ps v0]
  have e: "r1 = Inr fresh \<and> u1 = \<lparr>ext = x1, calls = calls w @ [SomeRandomness]\<rparr> \<and>
           p = urlRandomnessWrite env projectRoot fresh"
    by simp
  from a have landed: "p u1 = (Inr (), u2)" and
    third: "getProjectRandomnessAsync env projectRoot u2 = (r3, u3, pending')"
    by simp_all
  obtain rs x2 where s:
    "projectSettingsSetAsync env projectRoot (JObj [(''urlRandomness'', fresh)]) x1 = (rs, x2)"
    by (cases "projectSettingsSetAsync env projectRoot (JObj [(''urlRandomness'', fresh)]) x1")
  from landed e s have rs: "rs = Inr ()"
    and u2: "u2 = \<lparr>ext = x2, calls = calls w @ [SomeRandomness,
                 ProjectSettingsSet projectRoot (JObj [(''urlRandomness'', fresh)])]\<rparr>"
    by (simp_all add: urlRandomnessWrite_def callIO_def)
  from identifierLaws_project[OF laws s[unfolded rs]] obtain ps' where
    rd: "projectSettingsReadAsync env (ext u2) projectRoot = Inr ps'"
    and val: "getProp ps' ''urlRandomness'' = Inr fresh"
    by (auto simp: u2)
  from identifierLaws_truthy(2)[OF laws, of "ext w"] g have t: "truthy fresh"
    by simp
  from projectRandomness_persisted[OF rd val t] third
  have k: "r3 = Inr fresh \<and> u3 = u2 \<and> pending' = []"
    by simp
  from k e show "r3 = r1" by simp
  from k show "u3 = u2" by simp
  from k show "pending' = []" by simp
  from k show "generated SomeRandomness u3 = generated SomeRandomness w + 1"
    by (simp add: u2 generated_def)
qed

theorem derivedIdentifier_getOrCreate_witness:
  "getLoggedOutPlaceholderUsernameAsync demo_env named_world =
     (Inr (JStr ''anonymous-7''), named_world) \<and>
   getProjectRandomnessAsync demo_env ''/app'' named_world = (Inr (JStr ''ab-cde''), named_world, []) \<and>
   fst (getLoggedOutPlaceholderUsernameAsync demo_env demo_world) = Inr (JStr ''r'') \<and>
   fst (getLoggedOutPlaceholderUsernameAsync demo_env
          (snd (getLoggedOutPlaceholderUsernameAsync demo_env demo_world))) = Inr (JStr ''r'') \<and>
   generated RandomIdentifier
     (snd (getLoggedOutPlaceholderUsernameAsync demo_env
        (snd (getLoggedOutPlaceholderUsernameAsync demo_env demo_world)))) = 1 \<and>
   fst (getProjectRandomnessAsync demo_env ''/app''
          (settle (urlRandomnessWrite demo_env ''/app'' (JStr ''r''))
             (fst (snd (getProjectRandomnessAsync demo_env ''/app'' demo_world))))) = Inr (JStr ''r'')"
proof -
  note t = derivedIdentifier_getOrCreate[OF demo_identifierLaws]
  have n1: "userSettingsGetAsync demo_env (ext named_world) ''loggedOutPlaceholderUsername'' JNull =
              Inr (JStr ''anonymous-7'') \<and> truthy (JStr ''anonymous-7'')"
    by (simp add: demo_user_get named_world_fields)
  have n2: "projectSettingsReadAsync demo_env (ext named_world) ''/app'' =
              Inr (JObj [(''urlRandomness'', JStr ''ab-cde'')]) \<and>
            getProp (JObj [(''urlRandomness'', JStr ''ab-cde'')]) ''urlRandomness'' = Inr (JStr ''ab-cde'') \<and>
            truthy (JStr ''ab-cde'')"
    by (simp add: demo_project_read named_world_fields)
  note c1 = t[THEN conjunct1, THEN mp, OF n1]
  note c2 = t[THEN conjunct2, THEN conjunct1, THEN mp, OF n2]
  let ?key = "''loggedOutPlaceholderUsername''"
  let ?w1 = "\<lparr>ext = ext demo_world\<lparr>userStore := [(?key, JStr ''r'')], seed := 1\<rparr>,
              calls = [RandomIdentifier, UserSettingsSet ?key (JStr ''r'')]\<rparr>"
  have first: "getLoggedOutPlaceholderUsernameAsync demo_env demo_world = (Inr (JStr ''r''), ?w1)"
    using loggedOut_fresh[of demo_env demo_world JNull "JStr ''r''" "ext demo_world\<lparr>seed := 1\<rparr>"
        "Inr ()" "ext demo_world\<lparr>userStore := [(?key, JStr ''r'')], seed := 1\<rparr>"]
    by (simp add: demo_user_get demo_user_set demo_world_fields demo_generate_at)
  obtain r2 w2 where second: "getLoggedOutPlaceholderUsernameAsync demo_env ?w1 = (r2, w2)"
    by (cases "getLoggedOutPlaceholderUsernameAsync demo_env ?w1")
  have v0: "userSettingsGetAsync demo_env (ext demo_world) ?key JNull = Inr JNull"
    by (simp add: demo_user_get demo_world_fields)
  from t[THEN conjunct2, THEN conjunct2, THEN conjunct1, THEN mp, OF conjI[OF v0 conjI[OF first second]]]
  have c3: "r2 = Inr (JStr ''r'') \<and> w2 = ?w1 \<and> generated RandomIdentifier w2 = 1"
    by (simp add: generated_def demo_world_fields)
  let ?u1 = "\<lparr>ext = ext demo_world\<lparr>seed := 1\<rparr>, calls = [SomeRandomness]\<rparr>"
  let ?p = "urlRandomnessWrite demo_env ''/app'' (JStr ''r'')"
  let ?u2 = "\<lparr>ext = ext demo_world\<lparr>projectStore := [(''urlRandomness'', JStr ''r'')], seed := 1\<rparr>,
              calls = [SomeRandomness,
                       ProjectSettingsSet ''/app'' (JObj [(''urlRandomness'', JStr ''r'')])]\<rparr>"
  have p1: "getProjectRandomnessAsync demo_env ''/app'' demo_world = (Inr (JStr ''r''), ?u1, [?p])"
    by (rule projectRandomness_write_in_flight[THEN conjunct1])
  have landed: "?p ?u1 = (Inr (), ?u2)"
    by (simp add: urlRandomnessWrite_def callIO_def demo_project_set demo_world_fields)
  obtain r3 u3 pending' where third:
    "getProjectRandomnessAsync demo_env ''/app'' ?u2 = (r3, u3, pending')"
    by (cases "getProjectRandomnessAsync demo_env ''/app'' ?u2") auto
  have absent: "projectSettingsReadAsync demo_env (ext demo_world) ''/app'' = Inr (JObj []) \<and>
                getProp (JObj []) ''urlRandomness'' = Inr JUndefined \<and> \<not> truthy JUndefined"
    by (simp add: demo_project_read demo_world_fields)
  from t[THEN conjunct2, THEN conjunct2, THEN conjunct2, THEN conjunct2, THEN mp,
      OF conjI[OF absent[THEN conjunct1] conjI[OF absent[THEN conjunct2, THEN conjunct1]
         conjI[OF absent[THEN conjunct2, THEN conjunct2] conjI[OF p1 conjI[OF landed third]]]]]]
  have c5: "r3 = Inr (JStr ''r'')"
    by simp
  have s: "settle ?p ?u1 = ?u2"
    by (simp only: settle_def landed snd_conv)
  from c3 have r2: "r2 = Inr (JStr ''r'')" and w2: "w2 = ?w1"
    by simp_all
  from c3 have gen: "generated RandomIdentifier ?w1 = 1"
    by (simp only: w2)
  show ?thesis
    using c1 c2 c5
    by (simp only: first second[unfolded r2 w2] third p1 s gen fst_conv snd_conv simp_thms)
qed

text \<open>
  The claim as stated, "two calls in sequence invoke the generator exactly once and
  return the same value", fails in two ways. With a value already stored, the two calls
  of \<^verbatim>\<open>getLoggedOutPlaceholderUsernameAsync\<close> never invoke the generator. With no value
  stored, two calls of \<^verbatim>\<open>getProjectRandomnessAsync\<close>, the second made while the write of
  the first is still in flight, invoke the generator twice and return different values.
\<close>

theorem derivedIdentifier_exactly_once_counterexample:
  "fst (getLoggedOutPlaceholderUsernameAsync demo_env named_world) = Inr (JStr ''anonymous-7'') \<and>
   fst (getLoggedOutPlaceholderUsernameAsync demo_env
          (snd (getLoggedOutPlaceholderUsernameAsync demo_env named_world))) =
     Inr (JStr ''anonymous-7'') \<and>
   generated RandomIdentifier named_world = 0 \<and>
   generated RandomIdentifier
     (snd (getLoggedOutPlaceholderUsernameAsync demo_env
        (snd (getLoggedOutPlaceholderUsernameAsync demo_env named_world)))) = 0 \<and>
   fst (getProjectRandomnessAsync demo_env ''/app'' demo_world) = Inr (JStr ''r'') \<and>
   fst (getProjectRandomnessAsync demo_env ''/app''
          (fst (snd (getProjectRandomnessAsync demo_env ''/app'' demo_world)))) = Inr (JStr ''rr'') \<and>
   generated SomeRandomness demo_world = 0 \<and>
   generated SomeRandomness
     (fst (snd (getProjectRandomnessAsync demo_env ''/app''
        (fst (snd (getProjectRandomnessAsync demo_env ''/app'' demo_world)))))) = 2"
proof -
  have warm: "getLoggedOutPlaceholderUsernameAsync demo_env named_world =
                (Inr (JStr ''anonymous-7''), named_world)"
    by (rule loggedOut_persisted) (simp_all add: demo_user_get named_world_fields)
  have g0: "generated RandomIdentifier named_world = 0" "generated SomeRandomness demo_world = 0"
    by (simp_all add: generated_def named_world_fields demo_world_fields)
  note fl = projectRandomness_write_in_flight
  show ?thesis
    by (simp only: warm g0 fl[THEN conjunct1] fl[THEN conjunct2, THEN conjunct1]
        fl[THEN conjunct2, THEN conjunct2] fst_conv snd_conv simp_thms)
qed

end
